theory Spec2Isabelle
  imports Main "HOL-Library.Sublist"
begin

section \<open>The ts2c Transpiler (src/transpile.ts)\<close>

text \<open>
  The Transpiler walks a TypeScript syntax tree and drives three collaborators (Emitter,
  TypeHelper, MemoryManager) and the printf sub-transpiler. Only \<^verbatim>\<open>transpile.ts\<close> is
  part of the sources; the collaborators, the type checker and the syntax tree provider are
  taken as parameters of the model (record \<open>env\<close> below). Their mutable state is one value
  of an arbitrary type \<open>'w\<close>, since the collaborators hold references to each other.
\<close>

subsection \<open>JavaScript string operations used by the Transpiler\<close>

text \<open>\<^verbatim>\<open>xs.join(sep)\<close> on an array of strings.\<close>

fun join :: "string \<Rightarrow> string list \<Rightarrow> string" where
  "join sep [] = []"
| "join sep [x] = x"
| "join sep (x # y # ys) = x @ sep @ join sep (y # ys)"

text \<open>\<^verbatim>\<open>s.indexOf(pat)\<close>: the first position where \<open>pat\<close> occurs, or \<open>-1\<close>.\<close>

fun indexOf :: "string \<Rightarrow> string \<Rightarrow> int" where
  "indexOf [] pat = (if pat = [] then 0 else - 1)"
| "indexOf (c # s) pat =
     (if prefix pat (c # s) then 0
      else (let i = indexOf s pat in if i < 0 then - 1 else i + 1))"

text \<open>
  \<^verbatim>\<open>s.slice(b, e)\<close>: negative positions count from the end, and every position is clamped
  to the string.
\<close>

definition slice :: "string \<Rightarrow> int \<Rightarrow> int \<Rightarrow> string" where
  "slice s b e =
     (let n = int (length s);
          first = (if b < 0 then max (n + b) 0 else min b n);
          final = (if e < 0 then max (n + e) 0 else min e n)
      in take (nat (final - first)) (drop (nat first) s))"

text \<open>
  The replacement text of \<^verbatim>\<open>s.replace(pat, rep)\<close> with a string pattern: \<^verbatim>\<open>$$\<close> stands
  for a dollar sign, \<^verbatim>\<open>$&\<close> for the match, \<^verbatim>\<open>$`\<close> and \<^verbatim>\<open>$'\<close> for the text before and
  after the match; there are no groups.
\<close>

fun expandReplacement :: "string \<Rightarrow> string \<Rightarrow> string \<Rightarrow> string \<Rightarrow> string" where
  "expandReplacement (c # d # rep) matched preceding following =
     (if c = CHR ''$'' \<and> d = CHR ''$''
      then CHR ''$'' # expandReplacement rep matched preceding following
      else if c = CHR ''$'' \<and> d = CHR ''&''
      then matched @ expandReplacement rep matched preceding following
      else if c = CHR ''$'' \<and> d = CHR 0x60
      then preceding @ expandReplacement rep matched preceding following
      else if c = CHR ''$'' \<and> d = CHR 0x27
      then following @ expandReplacement rep matched preceding following
      else c # expandReplacement (d # rep) matched preceding following)"
| "expandReplacement rep matched preceding following = rep"

text \<open>\<^verbatim>\<open>s.replace(pat, rep)\<close> with a string pattern replaces the first occurrence only.\<close>

definition replace :: "string \<Rightarrow> string \<Rightarrow> string \<Rightarrow> string" where
  "replace s pat rep =
     (let i = indexOf s pat
      in if i < 0 then s
         else (let preceding = take (nat i) s;
                   following = drop (nat i + length pat) s
               in preceding @ expandReplacement rep pat preceding following @ following))"

text \<open>\<^verbatim>\<open>s.replace(/;\n$/, '')\<close>: without the multiline flag, \<^verbatim>\<open>$\<close> is the end of the string.\<close>

definition stripSemicolonNewline :: "string \<Rightarrow> string" where
  "stripSemicolonNewline s =
     (if suffix '';\<newline>'' s then take (length s - 2) s else s)"

text \<open>\<^verbatim>\<open>s.replace(/"/g, '\\"')\<close>: a backslash before every double quote.\<close>

fun escapeDoubleQuotes :: "string \<Rightarrow> string" where
  "escapeDoubleQuotes [] = []"
| "escapeDoubleQuotes (c # s) =
     (if c = CHR 0x22 then CHR 0x5C # CHR 0x22 # escapeDoubleQuotes s
      else c # escapeDoubleQuotes s)"

text \<open>
  \<^verbatim>\<open>s.replace(/([^\\])\\'/g, "$1'")\<close>: scanning from the left, a character other than a
  backslash followed by backslash and single quote keeps the character and the quote;
  the scan goes on after the match.
\<close>

fun unescapeSingleQuotes :: "string \<Rightarrow> string" where
  "unescapeSingleQuotes (c # b # q # s) =
     (if c \<noteq> CHR 0x5C \<and> b = CHR 0x5C \<and> q = CHR 0x27
      then c # CHR 0x27 # unescapeSingleQuotes s
      else c # unescapeSingleQuotes (b # q # s))"
| "unescapeSingleQuotes s = s"

text \<open>
  A number appended to a string. Capacities are integers; JavaScript prints an integer
  below \<open>10^21\<close> in plain decimal notation.
\<close>

fun digits :: "nat \<Rightarrow> string" where
  "digits n =
     (if n < 10 then [char_of (48 + n)]
      else digits (n div 10) @ [char_of (48 + n mod 10)])"

declare digits.simps [simp del]

definition numberToString :: "int \<Rightarrow> string" where
  "numberToString i = (if i < 0 then CHR ''-'' # digits (nat (- i)) else digits (nat i))"

text \<open>\<^verbatim>\<open>Transpiler.convertString\<close> (lines 568-573).\<close>

definition convertString :: "string \<Rightarrow> string" where
  "convertString tsString =
     (if indexOf tsString [CHR 0x27] = 0
      then CHR 0x22 # slice (unescapeSingleQuotes (escapeDoubleQuotes tsString)) 1 (- 1) @ [CHR 0x22]
      else tsString)"

subsection \<open>Syntax trees\<close>

text \<open>
  \<^verbatim>\<open>ts.SyntaxKind\<close>: the kinds that \<^verbatim>\<open>transpile.ts\<close> names. Kinds of nodes without fields
  of their own (operator tokens, punctuation, constructs unknown to the Transpiler) are
  token kinds; \<open>UnlistedKind\<close> carries the name of a kind the source never mentions.
\<close>

datatype TokenKind =
    GreaterThanEqualsToken | GreaterThanToken | LessThanEqualsToken | LessThanToken
  | EqualsEqualsEqualsToken | EqualsEqualsToken | PlusToken | MinusToken | AsteriskToken
  | SlashToken | EqualsToken | ExclamationToken | MinusMinusToken | PlusPlusToken
  | UnlistedKind string

datatype SyntaxKind =
    FunctionDeclaration | VariableStatement | VariableDeclaration | VariableDeclarationList
  | Block | IfStatement | ForStatement | ForOfStatement | ForInStatement | WhileStatement
  | DoStatement | ReturnStatement | ExpressionStatement | CallExpression
  | PropertyAccessExpression | ElementAccessExpression | BinaryExpression
  | PrefixUnaryExpression | PostfixUnaryExpression | TrueKeyword | FalseKeyword | NullKeyword
  | NumericLiteral | StringLiteral | Identifier | SourceFile | SyntaxList | EndOfFileToken
  | SemicolonToken | ObjectLiteralExpression | ArrayLiteralExpression | PropertyAssignment
  | Token TokenKind

text \<open>
  \<^verbatim>\<open>ts.Node\<close>. Every node carries its source text (\<^verbatim>\<open>node.getText()\<close>) and the fields that
  the Transpiler reads, under the names of the TypeScript interfaces; optional fields are
  options. Nodes that the Transpiler walks with \<^verbatim>\<open>node.getChildren()\<close> carry that list.
  A binary expression carries the kind of its parent (\<^verbatim>\<open>binExpr.parent.kind\<close>).
\<close>

datatype node =
    FunctionDeclarationNode (getText: string) node "node list option"
      \<comment> \<open>name, body.statements (no body: \<open>None\<close>)\<close>
  | VariableStatementNode (getText: string) "node list"
      \<comment> \<open>declarationList.declarations\<close>
  | VariableDeclarationNode (getText: string) node "node option"
      \<comment> \<open>name, initializer\<close>
  | VariableDeclarationListNode (getText: string) "node list"
      \<comment> \<open>declarations\<close>
  | BlockNode (getText: string) "node list" "node list"
      \<comment> \<open>statements, getChildren()\<close>
  | IfStatementNode (getText: string) node node "node option"
      \<comment> \<open>expression, thenStatement, elseStatement\<close>
  | ForStatementNode (getText: string) "node option" "node option" "node option" node
      \<comment> \<open>initializer, condition, incrementor, statement\<close>
  | ForOfStatementNode (getText: string) node node node
      \<comment> \<open>initializer, expression, statement\<close>
  | ForInStatementNode (getText: string)
  | WhileStatementNode (getText: string) node node
      \<comment> \<open>expression, statement\<close>
  | DoStatementNode (getText: string) node node
      \<comment> \<open>statement, expression\<close>
  | ReturnStatementNode (getText: string) "node option"
      \<comment> \<open>expression\<close>
  | ExpressionStatementNode (getText: string) "node list"
      \<comment> \<open>getChildren()\<close>
  | CallExpressionNode (getText: string) node "node list"
      \<comment> \<open>expression, arguments\<close>
  | PropertyAccessExpressionNode (getText: string) node node
      \<comment> \<open>expression, name\<close>
  | ElementAccessExpressionNode (getText: string) node node
      \<comment> \<open>expression, argumentExpression\<close>
  | BinaryExpressionNode (getText: string) SyntaxKind node node node
      \<comment> \<open>parent.kind, left, operatorToken, right\<close>
  | PrefixUnaryExpressionNode (getText: string) TokenKind node
      \<comment> \<open>operator, operand\<close>
  | PostfixUnaryExpressionNode (getText: string) node TokenKind
      \<comment> \<open>operand, operator\<close>
  | TrueKeywordNode (getText: string)
  | FalseKeywordNode (getText: string)
  | NullKeywordNode (getText: string)
  | NumericLiteralNode (getText: string)
  | StringLiteralNode (getText: string)
  | IdentifierNode (getText: string)
  | SourceFileNode (getText: string) "node list"
      \<comment> \<open>getChildren()\<close>
  | SyntaxListNode (getText: string) "node list"
      \<comment> \<open>getChildren()\<close>
  | EndOfFileTokenNode (getText: string) "node list"
      \<comment> \<open>getChildren()\<close>
  | SemicolonTokenNode (getText: string)
  | ObjectLiteralExpressionNode (getText: string) "node list"
      \<comment> \<open>properties\<close>
  | ArrayLiteralExpressionNode (getText: string) "node list"
      \<comment> \<open>elements\<close>
  | PropertyAssignmentNode (getText: string) node node
      \<comment> \<open>name, initializer\<close>
  | TokenNode (getText: string) TokenKind

text \<open>\<^verbatim>\<open>node.kind\<close>.\<close>

fun kind :: "node \<Rightarrow> SyntaxKind" where
  "kind (FunctionDeclarationNode t nm body) = FunctionDeclaration"
| "kind (VariableStatementNode t ds) = VariableStatement"
| "kind (VariableDeclarationNode t nm ini) = VariableDeclaration"
| "kind (VariableDeclarationListNode t ds) = VariableDeclarationList"
| "kind (BlockNode t ss cs) = Block"
| "kind (IfStatementNode t e s1 s2) = IfStatement"
| "kind (ForStatementNode t ini c inc s) = ForStatement"
| "kind (ForOfStatementNode t ini e s) = ForOfStatement"
| "kind (ForInStatementNode t) = ForInStatement"
| "kind (WhileStatementNode t e s) = WhileStatement"
| "kind (DoStatementNode t s e) = DoStatement"
| "kind (ReturnStatementNode t e) = ReturnStatement"
| "kind (ExpressionStatementNode t cs) = ExpressionStatement"
| "kind (CallExpressionNode t e as) = CallExpression"
| "kind (PropertyAccessExpressionNode t e nm) = PropertyAccessExpression"
| "kind (ElementAccessExpressionNode t e a) = ElementAccessExpression"
| "kind (BinaryExpressionNode t p l opr r) = BinaryExpression"
| "kind (PrefixUnaryExpressionNode t opr e) = PrefixUnaryExpression"
| "kind (PostfixUnaryExpressionNode t e opr) = PostfixUnaryExpression"
| "kind (TrueKeywordNode t) = TrueKeyword"
| "kind (FalseKeywordNode t) = FalseKeyword"
| "kind (NullKeywordNode t) = NullKeyword"
| "kind (NumericLiteralNode t) = NumericLiteral"
| "kind (StringLiteralNode t) = StringLiteral"
| "kind (IdentifierNode t) = Identifier"
| "kind (SourceFileNode t cs) = SourceFile"
| "kind (SyntaxListNode t cs) = SyntaxList"
| "kind (EndOfFileTokenNode t cs) = EndOfFileToken"
| "kind (SemicolonTokenNode t) = SemicolonToken"
| "kind (ObjectLiteralExpressionNode t ps) = ObjectLiteralExpression"
| "kind (ArrayLiteralExpressionNode t es) = ArrayLiteralExpression"
| "kind (PropertyAssignmentNode t nm ini) = PropertyAssignment"
| "kind (TokenNode t k) = Token k"

subsection \<open>Types of the collaborators\<close>

text \<open>
  Modelled from the spec: \<^verbatim>\<open>CType\<close>, \<^verbatim>\<open>StructType\<close> and \<^verbatim>\<open>ArrayType\<close> are declared in
  \<^verbatim>\<open>types.ts\<close>, which is not part of the sources. A \<^verbatim>\<open>CType\<close> is a string for a primitive
  C type (the Transpiler compares it with \<^verbatim>\<open>'char *'\<close> and \<^verbatim>\<open>'int16_t'\<close>), or a struct
  with a name and fields, or an array with an element type and a capacity. Whether an
  array is dynamic is a field of \<^verbatim>\<open>VariableInfo\<close> in the code.
\<close>

datatype CType =
    Primitive string
  | StructType string "(string \<times> CType) list"
  | ArrayType CType int
      \<comment> \<open>element type, capacity\<close>

text \<open>
  Modelled from the spec: \<^verbatim>\<open>VariableInfo\<close> is declared in \<^verbatim>\<open>types.ts\<close>, which is not part
  of the sources. The fields are those that the Transpiler reads (\<^verbatim>\<open>declaration.pos\<close> is
  \<open>declaration_pos\<close>).
\<close>

record VariableInfo =
  name :: string
  declaration_pos :: nat
  type :: CType
  requiresAllocation :: bool
  isDynamicArray :: bool

text \<open>
  Modelled from the spec: \<^verbatim>\<open>HeaderKey\<close> and \<^verbatim>\<open>EmitTarget\<close> are declared in \<^verbatim>\<open>emit.ts\<close>,
  which is not part of the sources. The keys are the closed enumeration of section 4.3, the
  targets are the text buffers listed there.
\<close>

datatype HeaderKey =
    HeaderKey_stdioh | HeaderKey_stdlibh | HeaderKey_stringh | HeaderKey_asserth
  | HeaderKey_bool | HeaderKey_js_eq | HeaderKey_array | HeaderKey_array_pop

datatype EmitTarget =
    EmitTarget_globals | EmitTarget_functionPrologue | EmitTarget_functionBody
  | EmitTarget_functionEpilogue | EmitTarget_headers

text \<open>
  What the type checker tells about a function: the return type, and for every parameter
  its name, its type at the declaration and the name node of the declaration.
\<close>

record 't ParameterSymbol =
  getName :: string
  typeOfSymbol :: 't
  valueDeclaration_name :: node

record 't Signature =
  getReturnType :: 't
  parameters :: "'t ParameterSymbol list"

text \<open>A JavaScript exception leaving the Transpiler.\<close>

datatype exn = TypeError

text \<open>
  The Transpiler object: its list of errors, and the state of its collaborators.
\<close>

record 'w Transpiler =
  errors :: "string list"
  collaborators :: 'w

text \<open>
  The collaborators. \<open>em\<close>: the Emitter (\<^verbatim>\<open>emit.ts\<close>); \<open>th\<close>: the TypeHelper
  (\<^verbatim>\<open>types.ts\<close>); \<open>mm\<close>: the MemoryManager (\<^verbatim>\<open>memory.ts\<close>); \<open>pf\<close>: the printf
  sub-transpiler (\<^verbatim>\<open>printf.ts\<close>), which may record errors and so works on the whole
  Transpiler; \<open>tc\<close>: the type checker behind \<^verbatim>\<open>GlobalContext\<close>; \<open>ts_SyntaxKind_name\<close>: the
  name that \<^verbatim>\<open>ts.SyntaxKind[k]\<close> gives for a kind. Methods that change a collaborator
  return the new state; queries read the state.
\<close>

record ('w, 't) env =
  em_emit :: "string \<Rightarrow> 'w \<Rightarrow> 'w"
  em_emitToBeginningOfFunction :: "string \<Rightarrow> 'w \<Rightarrow> 'w"
  em_emitOnceToBeginningOfFunction :: "string \<Rightarrow> 'w \<Rightarrow> 'w"
  em_emitPredefinedHeader :: "HeaderKey \<Rightarrow> 'w \<Rightarrow> 'w"
  em_beginFunction :: "'w \<Rightarrow> 'w"
  em_beginFunctionBody :: "'w \<Rightarrow> 'w"
  em_finalizeFunction :: "'w \<Rightarrow> 'w"
  em_increaseIndent :: "'w \<Rightarrow> 'w"
  em_decreaseIndent :: "'w \<Rightarrow> 'w"
  em_finalize :: "'w \<Rightarrow> string"
  em_defaultTarget :: "'w \<Rightarrow> EmitTarget"
  em_transpiledCode :: "'w \<Rightarrow> EmitTarget \<Rightarrow> string"
  em_set_transpiledCode :: "EmitTarget \<Rightarrow> string \<Rightarrow> 'w \<Rightarrow> 'w"
  th_figureOutVariablesAndTypes :: "node \<Rightarrow> 'w \<Rightarrow> 'w"
  th_getVariableInfo :: "'w \<Rightarrow> node \<Rightarrow> VariableInfo option"
  th_convertType :: "'w \<Rightarrow> 't \<Rightarrow> node option \<Rightarrow> CType"
  th_getTypeString :: "'w \<Rightarrow> CType \<Rightarrow> string"
  th_addNewIteratorVariable :: "node \<Rightarrow> 'w \<Rightarrow> string \<times> 'w"
  mm_preprocess :: "'w \<Rightarrow> 'w"
  mm_insertGCVariablesCreationIfNecessary :: "node option \<Rightarrow> 'w \<Rightarrow> 'w"
  mm_insertGlobalPointerIfNecessary :: "node \<Rightarrow> nat \<Rightarrow> string \<Rightarrow> 'w \<Rightarrow> 'w"
  mm_insertDestructorsIfNecessary :: "node \<Rightarrow> 'w \<Rightarrow> 'w"
  pf_transpile :: "node \<Rightarrow> 'w Transpiler \<Rightarrow> exn + 'w Transpiler"
  tc_getSignatureFromDeclaration :: "node \<Rightarrow> 't Signature"
  tc_getTypeAtLocation :: "node \<Rightarrow> 't"
  ts_SyntaxKind_name :: "SyntaxKind \<Rightarrow> string"

subsection \<open>Calls of the collaborators from the Transpiler\<close>

definition onCollaborators :: "('w \<Rightarrow> 'w) \<Rightarrow> 'w Transpiler \<Rightarrow> 'w Transpiler" where
  "onCollaborators f st = st\<lparr>collaborators := f (collaborators st)\<rparr>"

definition emit :: "('w, 't) env \<Rightarrow> string \<Rightarrow> 'w Transpiler \<Rightarrow> 'w Transpiler" where
  "emit env s = onCollaborators (em_emit env s)"

definition emitToBeginningOfFunction ::
  "('w, 't) env \<Rightarrow> string \<Rightarrow> 'w Transpiler \<Rightarrow> 'w Transpiler" where
  "emitToBeginningOfFunction env s = onCollaborators (em_emitToBeginningOfFunction env s)"

definition emitOnceToBeginningOfFunction ::
  "('w, 't) env \<Rightarrow> string \<Rightarrow> 'w Transpiler \<Rightarrow> 'w Transpiler" where
  "emitOnceToBeginningOfFunction env s =
     onCollaborators (em_emitOnceToBeginningOfFunction env s)"

definition emitPredefinedHeader ::
  "('w, 't) env \<Rightarrow> HeaderKey \<Rightarrow> 'w Transpiler \<Rightarrow> 'w Transpiler" where
  "emitPredefinedHeader env k = onCollaborators (em_emitPredefinedHeader env k)"

definition beginFunction :: "('w, 't) env \<Rightarrow> 'w Transpiler \<Rightarrow> 'w Transpiler" where
  "beginFunction env = onCollaborators (em_beginFunction env)"

definition beginFunctionBody :: "('w, 't) env \<Rightarrow> 'w Transpiler \<Rightarrow> 'w Transpiler" where
  "beginFunctionBody env = onCollaborators (em_beginFunctionBody env)"

definition finalizeFunction :: "('w, 't) env \<Rightarrow> 'w Transpiler \<Rightarrow> 'w Transpiler" where
  "finalizeFunction env = onCollaborators (em_finalizeFunction env)"

definition increaseIndent :: "('w, 't) env \<Rightarrow> 'w Transpiler \<Rightarrow> 'w Transpiler" where
  "increaseIndent env = onCollaborators (em_increaseIndent env)"

definition decreaseIndent :: "('w, 't) env \<Rightarrow> 'w Transpiler \<Rightarrow> 'w Transpiler" where
  "decreaseIndent env = onCollaborators (em_decreaseIndent env)"

text \<open>
  \<^verbatim>\<open>let t = this.emitter.defaultTarget;
  this.emitter.transpiledCode[t] = this.emitter.transpiledCode[t].replace(/;\n$/,'');\<close>
  (lines 170-171).
\<close>

definition stripTrailingSemicolon :: "('w, 't) env \<Rightarrow> 'w Transpiler \<Rightarrow> 'w Transpiler" where
  "stripTrailingSemicolon env =
     onCollaborators (\<lambda>w. let t = em_defaultTarget env w
        in em_set_transpiledCode env t (stripSemicolonNewline (em_transpiledCode env w t)) w)"

definition insertGCVariablesCreationIfNecessary ::
  "('w, 't) env \<Rightarrow> node option \<Rightarrow> 'w Transpiler \<Rightarrow> 'w Transpiler" where
  "insertGCVariablesCreationIfNecessary env scope =
     onCollaborators (mm_insertGCVariablesCreationIfNecessary env scope)"

definition insertGlobalPointerIfNecessary ::
  "('w, 't) env \<Rightarrow> node \<Rightarrow> nat \<Rightarrow> string \<Rightarrow> 'w Transpiler \<Rightarrow> 'w Transpiler" where
  "insertGlobalPointerIfNecessary env decl pos expr =
     onCollaborators (mm_insertGlobalPointerIfNecessary env decl pos expr)"

definition insertDestructorsIfNecessary ::
  "('w, 't) env \<Rightarrow> node \<Rightarrow> 'w Transpiler \<Rightarrow> 'w Transpiler" where
  "insertDestructorsIfNecessary env scope =
     onCollaborators (mm_insertDestructorsIfNecessary env scope)"

definition getVariableInfo ::
  "('w, 't) env \<Rightarrow> 'w Transpiler \<Rightarrow> node \<Rightarrow> VariableInfo option" where
  "getVariableInfo env st n = th_getVariableInfo env (collaborators st) n"

definition convertType ::
  "('w, 't) env \<Rightarrow> 'w Transpiler \<Rightarrow> 't \<Rightarrow> node option \<Rightarrow> CType" where
  "convertType env st ty ident = th_convertType env (collaborators st) ty ident"

definition getTypeString :: "('w, 't) env \<Rightarrow> 'w Transpiler \<Rightarrow> CType \<Rightarrow> string" where
  "getTypeString env st ct = th_getTypeString env (collaborators st) ct"

definition addNewIteratorVariable ::
  "('w, 't) env \<Rightarrow> node \<Rightarrow> 'w Transpiler \<Rightarrow> string \<times> 'w Transpiler" where
  "addNewIteratorVariable env n st =
     (let (v, w) = th_addNewIteratorVariable env n (collaborators st)
      in (v, st\<lparr>collaborators := w\<rparr>))"

text \<open>\<^verbatim>\<open>Transpiler.addError\<close> (lines 575-577): \<^verbatim>\<open>this.errors.push(error)\<close>.\<close>

definition addError :: "string \<Rightarrow> 'w Transpiler \<Rightarrow> 'w Transpiler" where
  "addError error st = st\<lparr>errors := errors st @ [error]\<rparr>"

text \<open>
  Truth of a \<^verbatim>\<open>CType\<close> value in a condition (\<^verbatim>\<open>cType && ...\<close>): an object is true, a
  string is true unless it is empty.
\<close>

fun truthy :: "CType \<Rightarrow> bool" where
  "truthy (Primitive s) = (s \<noteq> [])"
| "truthy (StructType n fs) = True"
| "truthy (ArrayType el c) = True"

text \<open>
  \<^verbatim>\<open>(<ArrayType>t).capacity + ""\<close> (line 204): the cast checks nothing, and a value
  without the property \<^verbatim>\<open>capacity\<close> gives \<^verbatim>\<open>undefined\<close>.
\<close>

fun capacityString :: "CType \<Rightarrow> string" where
  "capacityString (ArrayType el c) = numberToString c"
| "capacityString (Primitive s) = ''undefined''"
| "capacityString (StructType n fs) = ''undefined''"

subsection \<open>Sequencing of steps that may throw\<close>

definition andThen :: "exn + 'a \<Rightarrow> ('a \<Rightarrow> exn + 'b) \<Rightarrow> exn + 'b" where
  "andThen r f = (case r of Inl e \<Rightarrow> Inl e | Inr x \<Rightarrow> f x)"

text \<open>
  The loop of lines 286-287: every argument of \<^verbatim>\<open>console.log\<close> goes to the printf
  sub-transpiler, in order.
\<close>

fun printfArguments ::
  "('w, 't) env \<Rightarrow> node list \<Rightarrow> 'w Transpiler \<Rightarrow> exn + 'w Transpiler" where
  "printfArguments env [] st = Inr st"
| "printfArguments env (a # as) st =
     andThen (pf_transpile env a st) (\<lambda>s. printfArguments env as s)"

text \<open>\<^verbatim>\<open>Transpiler.convertOperatorToken\<close> (lines 529-557): the text, and the Transpiler.\<close>

definition convertOperatorToken ::
  "node \<Rightarrow> 'w Transpiler \<Rightarrow> string \<times> 'w Transpiler" where
  "convertOperatorToken token st =
     (case kind token of
        Token GreaterThanEqualsToken \<Rightarrow> ('' >= '', st)
      | Token GreaterThanToken \<Rightarrow> ('' > '', st)
      | Token LessThanEqualsToken \<Rightarrow> ('' <= '', st)
      | Token LessThanToken \<Rightarrow> ('' < '', st)
      | Token EqualsEqualsEqualsToken \<Rightarrow> ('' == '', st)
      | Token EqualsEqualsToken \<Rightarrow> ('' == '', st)
      | Token PlusToken \<Rightarrow> ('' + '', st)
      | Token MinusToken \<Rightarrow> ('' - '', st)
      | Token AsteriskToken \<Rightarrow> ('' * '', st)
      | Token SlashToken \<Rightarrow> ('' / '', st)
      | Token EqualsToken \<Rightarrow> ('' = '', st)
      | _ \<Rightarrow> (''<unsupported operator>'', addError (''Unsupported operator: '' @ getText token) st))"

subsection \<open>The Transpiler\<close>

text \<open>
  Fields read after a cast (\<^verbatim>\<open>(<ts.Block>node).statements\<close> and the like): the field of a
  node of that kind; the Transpiler tests the kind first, or the missing field makes it
  throw.
\<close>

fun statements :: "node \<Rightarrow> node list" where
  "statements (BlockNode t ss cs) = ss"
| "statements n = []"

fun declarations :: "node \<Rightarrow> node list" where
  "declarations (VariableDeclarationListNode t ds) = ds"
| "declarations n = []"

fun properties :: "node \<Rightarrow> node list" where
  "properties (ObjectLiteralExpressionNode t ps) = ps"
| "properties n = []"

fun elements :: "node \<Rightarrow> node list" where
  "elements (ArrayLiteralExpressionNode t es) = es"
| "elements n = []"

text \<open>
  \<^verbatim>\<open>Transpiler.transpileNode\<close> (lines 28-506) with the loops it runs and the private
  methods it calls: \<open>forEachNode\<close> is \<^verbatim>\<open>nodes.forEach(n => this.transpileNode(n))\<close>,
  \<open>transpileArguments\<close> the loop of lines 319-323, \<open>transpileObjectLiteralAssignment\<close>
  the loop of lines 509-516 over \<^verbatim>\<open>objLiteral.properties\<close>, \<open>transpileArrayLiteralAssignment\<close>
  the loop of lines 520-526 over \<^verbatim>\<open>arrLiteral.elements\<close> from index \<open>i\<close>, and
  \<open>transpileStringExpression\<close> lines 559-566. Reading a property of \<^verbatim>\<open>undefined\<close> throws
  a \<^verbatim>\<open>TypeError\<close>.
\<close>

function
  transpileNode :: "('w, 't) env \<Rightarrow> node \<Rightarrow> 'w Transpiler \<Rightarrow> exn + 'w Transpiler"
  and forEachNode :: "('w, 't) env \<Rightarrow> node list \<Rightarrow> 'w Transpiler \<Rightarrow> exn + 'w Transpiler"
  and transpileArguments ::
    "('w, 't) env \<Rightarrow> node list \<Rightarrow> 'w Transpiler \<Rightarrow> exn + 'w Transpiler"
  and transpileObjectLiteralAssignment ::
    "('w, 't) env \<Rightarrow> string \<Rightarrow> node list \<Rightarrow> 'w Transpiler \<Rightarrow> exn + 'w Transpiler"
  and transpileArrayLiteralAssignment ::
    "('w, 't) env \<Rightarrow> string \<Rightarrow> nat \<Rightarrow> node list \<Rightarrow> 'w Transpiler \<Rightarrow> exn + 'w Transpiler"
  and transpileStringExpression ::
    "('w, 't) env \<Rightarrow> node \<Rightarrow> 'w Transpiler \<Rightarrow> exn + 'w Transpiler"
where
  "transpileNode env (FunctionDeclarationNode t nm body) st =
     (let funcDecl = FunctionDeclarationNode t nm body;
          s1 = beginFunction env st;
          signature = tc_getSignatureFromDeclaration env funcDecl;
          returnType = convertType env s1 (getReturnType signature) None;
          s2 = emit env (getTypeString env s1 returnType) s1;
          s3 = emit env '' '' s2;
          s4 = emit env (getText nm) s3;
          s5 = emit env ''('' s4;
          params = map (\<lambda>param.
              getTypeString env s5
                (convertType env s5 (typeOfSymbol param) (Some (valueDeclaration_name param)))
              @ '' '' @ getName param) (parameters signature);
          s6 = emit env (join '', '' params) s5;
          s7 = emit env '')\<newline>'' s6;
          s8 = emit env ''{\<newline>'' s7;
          s9 = increaseIndent env s8;
          s10 = beginFunctionBody env s9;
          s11 = insertGCVariablesCreationIfNecessary env (Some funcDecl) s10
      in case body of
           None \<Rightarrow> Inl TypeError
         | Some stmts \<Rightarrow>
             andThen (forEachNode env stmts s11) (\<lambda>s12.
               if stmts = [] then Inl TypeError
               else
                 (let s13 = (if kind (last stmts) \<noteq> ReturnStatement
                             then insertDestructorsIfNecessary env funcDecl s12 else s12);
                      s14 = decreaseIndent env s13;
                      s15 = emit env ''}\<newline>'' s14
                  in Inr (finalizeFunction env s15))))"
| "transpileNode env (VariableStatementNode t decls) st =
     forEachNode env decls st"
| "transpileNode env (VariableDeclarationNode t nm initializer) st =
     (let varDecl = VariableDeclarationNode t nm initializer;
          varInfo = getVariableInfo env st nm;
          cTypeString =
            (case varInfo of
               None \<Rightarrow> ''void *''
             | Some vi \<Rightarrow>
                 if truthy (type vi)
                 then (let ts = getTypeString env st (type vi)
                       in if ts = [] then ''void *'' else ts)
                 else ''void *'');
          s1 = (if indexOf cTypeString ''{var}'' \<noteq> - 1
                then emitToBeginningOfFunction env (replace cTypeString ''{var}'' (getText nm)) st
                else emitToBeginningOfFunction env (cTypeString @ '' '' @ getText nm) st);
          s2 = emitToBeginningOfFunction env '';\<newline>'' s1
      in case varInfo of
           None \<Rightarrow> Inl TypeError
         | Some vi \<Rightarrow>
            (let s3 =
               (if requiresAllocation vi then
                  (case type vi of
                     ArrayType el capacity \<Rightarrow>
                       (let optimizedCap = max (capacity * 2) 4;
                            a1 = emit env (''ARRAY_CREATE('' @ name vi @ '', ''
                                   @ numberToString optimizedCap @ '', ''
                                   @ numberToString capacity @ '');\<newline>'') s2;
                            a2 = emitPredefinedHeader env HeaderKey_asserth a1;
                            a3 = emitPredefinedHeader env HeaderKey_stdlibh a2
                        in insertGlobalPointerIfNecessary env varDecl (declaration_pos vi)
                             (name vi @ ''.data'') a3)
                   | _ \<Rightarrow>
                       (let m1 = emit env (name vi) s2;
                            m2 = emit env '' = '' m1;
                            m3 = emit env (''malloc(sizeof(*'' @ name vi @ ''));\<newline>'') m2;
                            m4 = emit env (''assert('' @ name vi @ '' != NULL);\<newline>'') m3;
                            m5 = emitPredefinedHeader env HeaderKey_asserth m4;
                            m6 = emitPredefinedHeader env HeaderKey_stdlibh m5
                        in insertGlobalPointerIfNecessary env varDecl (declaration_pos vi)
                             (name vi) m6))
                else s2)
             in case initializer of
                  None \<Rightarrow> Inr s3
                | Some ini \<Rightarrow>
                    if kind ini = ObjectLiteralExpression
                    then transpileObjectLiteralAssignment env (getText nm) (properties ini) s3
                    else if kind ini = ArrayLiteralExpression
                    then
                      (let varString = (if isDynamicArray vi then name vi @ ''.data''
                                        else name vi)
                       in transpileArrayLiteralAssignment env varString 0 (elements ini) s3)
                    else
                      andThen (transpileNode env ini
                                 (emit env '' = '' (emit env (getText nm) s3)))
                        (\<lambda>s4. Inr (emit env '';\<newline>'' s4))))"
| "transpileNode env (BlockNode t stmts children) st =
     andThen (forEachNode env children (increaseIndent env (emit env ''{\<newline>'' st)))
       (\<lambda>s1. Inr (emit env ''}\<newline>'' (decreaseIndent env s1)))"
| "transpileNode env (IfStatementNode t expression thenStatement elseStatement) st =
     andThen (transpileNode env expression (emit env ''if ('' st)) (\<lambda>s1.
     andThen (transpileNode env thenStatement
        (let s2 = emit env '')\<newline>'' s1
         in if kind thenStatement \<noteq> Block then increaseIndent env s2 else s2)) (\<lambda>s3.
       (let s4 = (if kind thenStatement \<noteq> Block then decreaseIndent env s3 else s3)
        in case elseStatement of
             None \<Rightarrow> Inr s4
           | Some els \<Rightarrow>
               andThen (transpileNode env els
                  (let s5 = emit env ''else\<newline>'' s4
                   in if kind els \<noteq> Block then increaseIndent env s5 else s5)) (\<lambda>s6.
                 Inr (if kind els \<noteq> Block then decreaseIndent env s6 else s6)))))"
| "transpileNode env (ForStatementNode t initializer condition incrementor statement) st =
     (let rest = (\<lambda>s1.
            andThen (case condition of
                       None \<Rightarrow> Inr (emit env '';'' s1)
                     | Some c \<Rightarrow> transpileNode env c (emit env '';'' s1)) (\<lambda>s2.
            andThen (case incrementor of
                       None \<Rightarrow> Inr (emit env '';'' s2)
                     | Some i \<Rightarrow> transpileNode env i (emit env '';'' s2)) (\<lambda>s3.
            andThen (let s4 = increaseIndent env (emit env ''{\<newline>'' (emit env '')\<newline>'' s3))
                     in if kind statement = Block
                        then forEachNode env (statements statement) s4
                        else transpileNode env statement s4) (\<lambda>s5.
              Inr (emit env ''}\<newline>'' (decreaseIndent env s5))))))
      in case initializer of
           None \<Rightarrow> rest (emit env ''for ('' st)
         | Some forInitializer \<Rightarrow>
             if kind forInitializer = VariableDeclarationList
             then
               andThen (forEachNode env
                  (take (length (declarations forInitializer) - 1) (declarations forInitializer))
                  st) (\<lambda>s6.
                 if declarations forInitializer = [] then Inl TypeError
                 else
                   (case last (declarations forInitializer) of
                      VariableDeclarationNode t' nm ini \<Rightarrow>
                        (case getVariableInfo env s6 nm of
                           None \<Rightarrow> Inl TypeError
                         | Some lastChildVarInfo \<Rightarrow>
                             if requiresAllocation lastChildVarInfo
                             then
                               andThen (transpileNode env (last (declarations forInitializer)) s6)
                                 (\<lambda>s7. rest (emit env ''for ('' s7))
                             else
                               andThen (transpileNode env (last (declarations forInitializer))
                                          (emit env ''for ('' s6))
                                 (\<lambda>s7. rest (stripTrailingSemicolon env s7)))
                    | _ \<Rightarrow> Inl TypeError))
             else
               andThen (transpileNode env forInitializer (emit env ''for ('' st)) (\<lambda>s8.
                 rest (stripTrailingSemicolon env s8)))"
| "transpileNode env (ForOfStatementNode t initializer expression statement) st =
     (if kind expression \<noteq> Identifier
      then Inr (addError (''Unsupported type of expression as array in for of: '' @ t) st)
      else
        (let (iteratorVarName, s1) =
               addNewIteratorVariable env (ForOfStatementNode t initializer expression statement) st;
             s2 = emitOnceToBeginningOfFunction env
                    (''int16_t '' @ iteratorVarName @ '';\<newline>'') s1;
             arrayName = getText expression
         in case getVariableInfo env s2 expression of
              None \<Rightarrow> Inl TypeError
            | Some arrayVarInfo \<Rightarrow>
               (let arrayType = type arrayVarInfo;
                    arraySize = (if isDynamicArray arrayVarInfo then arrayName @ ''.size''
                                 else capacityString arrayType);
                    arrayAccess = (if isDynamicArray arrayVarInfo then arrayName @ ''.data''
                                   else arrayName);
                    s3 = emit env (''for ('' @ iteratorVarName @ '' = 0; '' @ iteratorVarName
                           @ '' < '' @ arraySize @ ''; '' @ iteratorVarName @ ''++)\<newline>'') s2;
                    s4 = emit env ''{\<newline>'' s3;
                    s5 = increaseIndent env s4
                in case declarations initializer of
                     [] \<Rightarrow> Inl TypeError
                   | arrayIteratorVarDecl # ds \<Rightarrow>
                       andThen (transpileNode env arrayIteratorVarDecl s5) (\<lambda>s6.
                       andThen (let s7 = emit env (getText arrayIteratorVarDecl @ '' = ''
                                           @ arrayAccess @ ''['' @ iteratorVarName @ ''];\<newline>'') s6
                                in if kind statement = Block
                                   then forEachNode env (statements statement) s7
                                   else transpileNode env statement s7) (\<lambda>s8.
                         Inr (emit env ''}\<newline>'' (decreaseIndent env s8)))))))"
| "transpileNode env (ForInStatementNode t) st =
     Inr (addError ''For-in statement is not yet supported!'' st)"
| "transpileNode env (WhileStatementNode t expression statement) st =
     andThen (transpileNode env expression (emit env ''while ('' st)) (\<lambda>s1.
     andThen (let s2 = increaseIndent env (emit env ''{\<newline>'' (emit env '')'' s1))
              in if kind statement = Block
                 then forEachNode env (statements statement) s2
                 else transpileNode env statement s2) (\<lambda>s3.
       Inr (emit env ''}\<newline>'' (decreaseIndent env s3))))"
| "transpileNode env (DoStatementNode t statement expression) st =
     andThen (let s1 = increaseIndent env (emit env ''do {\<newline>'' st)
              in if kind statement = Block
                 then forEachNode env (statements statement) s1
                 else transpileNode env statement s1) (\<lambda>s2.
     andThen (transpileNode env expression (emit env ''} while ('' (decreaseIndent env s2))) (\<lambda>s3.
       Inr (emit env '');\<newline>'' s3)))"
| "transpileNode env (ReturnStatementNode t expression) st =
     (let s1 = emit env ''return''
                 (insertDestructorsIfNecessary env (ReturnStatementNode t expression) st)
      in case expression of
           Some expr \<Rightarrow>
             andThen (transpileNode env expr (emit env '' '' s1)) (\<lambda>s2.
               Inr (emit env '';\<newline>'' s2))
         | None \<Rightarrow> Inr (emit env '';\<newline>'' s1))"
| "transpileNode env (ExpressionStatementNode t children) st =
     andThen (forEachNode env children st) (\<lambda>s1. Inr (emit env '';\<newline>'' s1))"
| "transpileNode env (CallExpressionNode t expression arguments) st =
     (let notReplaced = (\<lambda>s.
            andThen (transpileNode env expression s) (\<lambda>s1.
            andThen (transpileArguments env arguments (emit env ''('' s1)) (\<lambda>s2.
              Inr (emit env '')'' s2))))
      in case expression of
           PropertyAccessExpressionNode t' pexpr pname \<Rightarrow>
             if kind pexpr = Identifier \<and> getText pexpr = ''console'' \<and> getText pname = ''log''
             then printfArguments env arguments (emitPredefinedHeader env HeaderKey_stdioh st)
             else if kind pexpr = Identifier \<and> getText pname = ''push'' \<and> length arguments = 1
             then
               (case getVariableInfo env st pexpr of
                  Some varInfo \<Rightarrow>
                    (case type varInfo of
                       ArrayType el capacity \<Rightarrow>
                         (case arguments of
                            a # as \<Rightarrow>
                              andThen (transpileNode env a
                                 (emit env '','' (emit env (getText pexpr) (emit env ''ARRAY_PUSH(''
                                    (emitPredefinedHeader env HeaderKey_array st))))) (\<lambda>s3.
                                Inr (emit env '')'' s3))
                          | [] \<Rightarrow> Inl TypeError)
                     | _ \<Rightarrow> notReplaced st)
                | None \<Rightarrow> notReplaced st)
             else if kind pexpr = Identifier \<and> getText pname = ''pop'' \<and> length arguments = 0
             then
               (case getVariableInfo env st pexpr of
                  Some varInfo \<Rightarrow>
                    (case type varInfo of
                       ArrayType el capacity \<Rightarrow>
                         Inr (emit env '')'' (emit env (getText pexpr) (emit env ''ARRAY_POP(''
                                (emitPredefinedHeader env HeaderKey_array_pop st))))
                     | _ \<Rightarrow> notReplaced st)
                | None \<Rightarrow> notReplaced st)
             else notReplaced st
         | _ \<Rightarrow> notReplaced st)"
| "transpileNode env (PropertyAccessExpressionNode t expression nm) st =
     (let notReplaced = (\<lambda>s.
            andThen (transpileNode env expression s) (\<lambda>s1.
              Inr (emit env (getText nm) (emit env ''->'' s1))))
      in if kind expression = Identifier \<and> getText nm = ''length''
         then
           (case getVariableInfo env st expression of
              Some varInfo \<Rightarrow>
                (case type varInfo of
                   ArrayType el capacity \<Rightarrow>
                     if isDynamicArray varInfo
                     then Inr (emit env ''size'' (emit env ''.'' (emit env (getText expression) st)))
                     else Inr (emit env (numberToString capacity) st)
                 | _ \<Rightarrow> notReplaced st)
            | None \<Rightarrow> notReplaced st)
         else notReplaced st)"
| "transpileNode env (ElementAccessExpressionNode t expression argumentExpression) st =
     (let notFound = (\<lambda>s.
            andThen (transpileNode env expression (emit env ''js_get('' s)) (\<lambda>s1.
            andThen (transpileNode env argumentExpression (emit env '', '' s1)) (\<lambda>s2.
              Inr (emit env '')'' s2))))
      in if kind expression = Identifier \<and> kind argumentExpression = StringLiteral
         then Inr (emit env (slice (getText argumentExpression) 1 (- 1))
                     (emit env ''->'' (emit env (getText expression) st)))
         else if kind expression = Identifier
         then
           (case getVariableInfo env st expression of
              Some varInfo \<Rightarrow>
                (case type varInfo of
                   ArrayType el capacity \<Rightarrow>
                     (let s3 = emit env (getText expression) st;
                          s4 = (if isDynamicArray varInfo then emit env ''.data'' s3 else s3)
                      in andThen (transpileNode env argumentExpression (emit env ''['' s4)) (\<lambda>s5.
                           Inr (emit env '']'' s5)))
                 | _ \<Rightarrow> notFound st)
            | None \<Rightarrow> notFound st)
         else notFound st)"
| "transpileNode env (BinaryExpressionNode t parentKind left operatorToken right) st =
     (let leftType = convertType env st (tc_getTypeAtLocation env left) None;
          rightType = convertType env st (tc_getTypeAtLocation env right) None
      in if kind operatorToken = Token EqualsEqualsToken
            \<and> leftType = Primitive ''char *'' \<and> rightType = Primitive ''char *''
         then
           andThen (transpileNode env left (emit env ''strcmp('' st)) (\<lambda>s1.
           andThen (transpileNode env right (emit env '', '' s1)) (\<lambda>s2.
             Inr (emitPredefinedHeader env HeaderKey_stringh (emit env '') == 0'' s2))))
         else if kind operatorToken = Token EqualsEqualsToken
            \<and> (leftType \<noteq> Primitive ''int16_t'' \<or> rightType \<noteq> Primitive ''int16_t'')
         then
           andThen (transpileNode env left
              (emit env ''js_eq('' (emitPredefinedHeader env HeaderKey_js_eq st))) (\<lambda>s1.
           andThen (transpileNode env right (emit env '', '' s1)) (\<lambda>s2.
             Inr (emit env '')'' s2)))
         else if kind operatorToken = Token EqualsToken \<and> parentKind \<noteq> ExpressionStatement
         then Inr (addError ''Assignments inside expressions are not yet supported.'' st)
         else if kind operatorToken = Token EqualsToken \<and> kind right = ObjectLiteralExpression
         then
           (case getVariableInfo env st left of
              Some varInfo \<Rightarrow>
                transpileObjectLiteralAssignment env (name varInfo) (properties right) st
            | None \<Rightarrow>
                Inr (addError (''Only variable, element access or property access are supported ''
                  @ ''as left hand side expression in assignment of ObjectLiteralExpression.'') st))
         else if kind operatorToken = Token EqualsToken \<and> kind right = ArrayLiteralExpression
         then
           (case getVariableInfo env st left of
              Some varInfo \<Rightarrow>
                transpileArrayLiteralAssignment env (name varInfo) 0 (elements right) st
            | None \<Rightarrow>
                Inr (addError (''Only variable, element access or property access are supported ''
                  @ ''as left hand side expression in assignment of ArrayLiteralExpression.'') st))
         else
           andThen (transpileNode env left st) (\<lambda>s1.
             (let (operatorText, s2) = convertOperatorToken operatorToken s1
              in transpileNode env right (emit env operatorText s2))))"
| "transpileNode env (PrefixUnaryExpressionNode t operator operand) st =
     (let rightType = convertType env st (tc_getTypeAtLocation env operand) None
      in case operator of
           ExclamationToken \<Rightarrow>
             if rightType = Primitive ''char *''
             then
               andThen (transpileStringExpression env operand (emit env ''(!'' st)) (\<lambda>s1.
               andThen (transpileStringExpression env operand (emit env '' || !'' s1)) (\<lambda>s2.
                 Inr (emit env ''[0])'' s2)))
             else transpileNode env operand (emit env ''!'' st)
         | _ \<Rightarrow>
             Inr (addError (''Non-supported unary operator: ''
                    @ ts_SyntaxKind_name env PrefixUnaryExpression) st))"
| "transpileNode env (PostfixUnaryExpressionNode t operand operator) st =
     andThen (transpileNode env operand st) (\<lambda>s1.
       (case operator of
          MinusMinusToken \<Rightarrow> Inr (emit env ''--'' s1)
        | PlusPlusToken \<Rightarrow> Inr (emit env ''++'' s1)
        | _ \<Rightarrow>
            Inr (addError (''Non-supported postfix unary operator: ''
                   @ ts_SyntaxKind_name env PostfixUnaryExpression) s1)))"
| "transpileNode env (TrueKeywordNode t) st =
     Inr (emitPredefinedHeader env HeaderKey_bool (emit env ''TRUE'' st))"
| "transpileNode env (FalseKeywordNode t) st =
     Inr (emit env ''FALSE'' (emitPredefinedHeader env HeaderKey_bool st))"
| "transpileNode env (NullKeywordNode t) st = Inr (emit env ''NULL'' st)"
| "transpileNode env (NumericLiteralNode t) st = Inr (emit env t st)"
| "transpileNode env (StringLiteralNode t) st = Inr (emit env (convertString t) st)"
| "transpileNode env (IdentifierNode t) st = Inr (emit env t st)"
| "transpileNode env (SourceFileNode t children) st = forEachNode env children st"
| "transpileNode env (SyntaxListNode t children) st = forEachNode env children st"
| "transpileNode env (EndOfFileTokenNode t children) st = forEachNode env children st"
| "transpileNode env (SemicolonTokenNode t) st = Inr st"
| "transpileNode env (VariableDeclarationListNode t ds) st =
     Inr (addError (''Non-supported node: ''
            @ ts_SyntaxKind_name env (kind (VariableDeclarationListNode t ds))) st)"
| "transpileNode env (ObjectLiteralExpressionNode t ps) st =
     Inr (addError (''Non-supported node: ''
            @ ts_SyntaxKind_name env (kind (ObjectLiteralExpressionNode t ps))) st)"
| "transpileNode env (ArrayLiteralExpressionNode t es) st =
     Inr (addError (''Non-supported node: ''
            @ ts_SyntaxKind_name env (kind (ArrayLiteralExpressionNode t es))) st)"
| "transpileNode env (PropertyAssignmentNode t nm ini) st =
     Inr (addError (''Non-supported node: ''
            @ ts_SyntaxKind_name env (kind (PropertyAssignmentNode t nm ini))) st)"
| "transpileNode env (TokenNode t k) st =
     Inr (addError (''Non-supported node: ''
            @ ts_SyntaxKind_name env (kind (TokenNode t k))) st)"
| "forEachNode env [] st = Inr st"
| "forEachNode env (n # ns) st =
     andThen (transpileNode env n st) (\<lambda>s1. forEachNode env ns s1)"
| "transpileArguments env [] st = Inr st"
| "transpileArguments env [a] st = transpileNode env a st"
| "transpileArguments env (a # b # as) st =
     andThen (transpileNode env a st) (\<lambda>s1.
       transpileArguments env (b # as) (emit env '', '' s1))"
| "transpileObjectLiteralAssignment env varString [] st = Inr st"
| "transpileObjectLiteralAssignment env varString (p # ps) st =
     (case p of
        PropertyAssignmentNode t nm ini \<Rightarrow>
          andThen (transpileNode env ini
             (emit env '' = '' (emit env (getText nm) (emit env (varString @ ''->'') st)))) (\<lambda>s1.
            transpileObjectLiteralAssignment env varString ps (emit env '';\<newline>'' s1))
      | _ \<Rightarrow> Inl TypeError)"
| "transpileArrayLiteralAssignment env varString i [] st = Inr st"
| "transpileArrayLiteralAssignment env varString i (e # es) st =
     andThen (transpileNode env e
        (emit env '' = '' (emit env (''['' @ numberToString (int i) @ '']'') (emit env varString st))))
       (\<lambda>s1. transpileArrayLiteralAssignment env varString (Suc i) es (emit env '';\<newline>'' s1))"
| "transpileStringExpression env tsNode st =
     (if kind tsNode \<noteq> Identifier
      then andThen (transpileNode env tsNode (emit env ''('' st)) (\<lambda>s1. Inr (emit env '')'' s1))
      else Inr (emit env (getText tsNode) st))"
  by pat_completeness auto

termination
proof -
  have take_le: "size_list size (take k xs) \<le> size_list size xs" for k and xs :: "node list"
    by (induction xs arbitrary: k) (auto simp: take_Cons split: nat.splits)
  have last_le: "xs \<noteq> [] \<Longrightarrow> size (last xs) \<le> size_list size xs" for xs :: "node list"
    by (induction xs) auto
  have block: "kind n = Block \<Longrightarrow> size_list size (statements n) < size n" for n
    by (cases n) auto
  have object: "kind n = ObjectLiteralExpression \<Longrightarrow> size_list size (properties n) < size n"
    for n
    by (cases n) auto
  have array: "kind n = ArrayLiteralExpression \<Longrightarrow> size_list size (elements n) < size n"
    for n
    by (cases n) auto
  have decls: "size_list size (declarations n) \<le> size n" for n
    by (cases n) auto
  have declList: "kind n = VariableDeclarationList \<Longrightarrow>
      size_list size (take (length (declarations n) - 1) (declarations n)) \<le> size n
      \<and> (declarations n \<noteq> [] \<longrightarrow> size (last (declarations n)) \<le> size n)" for n
    using take_le [of "length (declarations n) - 1" "declarations n"]
      last_le [of "declarations n"] decls [of n]
    by auto
  have first: "declarations n = d # ds \<Longrightarrow> size d < size n" for n d ds
    using decls [of n] by simp
  show ?thesis
    apply (relation "measure (\<lambda>x. case x of
        Inl (Inl (env, n, st)) \<Rightarrow> 2 * size n
      | Inl (Inr (Inl (env, ns, st))) \<Rightarrow> 2 * size_list size ns
      | Inl (Inr (Inr (env, ns, st))) \<Rightarrow> 2 * size_list size ns
      | Inr (Inl (env, v, ns, st)) \<Rightarrow> 2 * size_list size ns
      | Inr (Inr (Inl (env, v, i, ns, st))) \<Rightarrow> 2 * size_list size ns
      | Inr (Inr (Inr (env, n, st))) \<Rightarrow> 2 * size n + 1)")
    apply (auto dest: block object array declList first)
    done
qed

text \<open>
  \<^verbatim>\<open>Transpiler.transpile\<close> (lines 15-26), on a Transpiler \<open>st\<close>. An exception of the walk
  leaves \<^verbatim>\<open>transpile\<close> as it is thrown.
\<close>

definition transpile :: "('w, 't) env \<Rightarrow> node \<Rightarrow> 'w Transpiler \<Rightarrow> exn + string" where
  "transpile env sourceFile st =
     (let s1 = onCollaborators (th_figureOutVariablesAndTypes env sourceFile) st;
          s2 = onCollaborators (mm_preprocess env) s1;
          s3 = insertGCVariablesCreationIfNecessary env None s2
      in andThen (transpileNode env sourceFile s3) (\<lambda>s4.
           (let s5 = insertDestructorsIfNecessary env sourceFile s4
            in if errors s5 \<noteq> [] then Inr (join ''\<newline>'' (errors s5))
               else Inr (em_finalize env (collaborators s5)))))"

subsection \<open>Parts of \<^verbatim>\<open>transpileNode\<close>, named for the statements about them\<close>

text \<open>
  The body of a loop (lines 182-185, 214-217, 234-237, 247-250): the statements of a
  block one by one, any other statement as it is.
\<close>

definition transpileLoopBody ::
  "('w, 't) env \<Rightarrow> node \<Rightarrow> 'w Transpiler \<Rightarrow> exn + 'w Transpiler" where
  "transpileLoopBody env statement st =
     (if kind statement = Block then forEachNode env (statements statement) st
      else transpileNode env statement st)"

text \<open>
  The \<^verbatim>\<open>for\<close> statement from the first \<^verbatim>\<open>";"\<close> of its header on (lines 173-187).
\<close>

definition transpileForFromCondition ::
  "('w, 't) env \<Rightarrow> node option \<Rightarrow> node option \<Rightarrow> node \<Rightarrow> 'w Transpiler
    \<Rightarrow> exn + 'w Transpiler" where
  "transpileForFromCondition env condition incrementor statement s1 =
     andThen (case condition of
                None \<Rightarrow> Inr (emit env '';'' s1)
              | Some c \<Rightarrow> transpileNode env c (emit env '';'' s1)) (\<lambda>s2.
     andThen (case incrementor of
                None \<Rightarrow> Inr (emit env '';'' s2)
              | Some i \<Rightarrow> transpileNode env i (emit env '';'' s2)) (\<lambda>s3.
     andThen (transpileLoopBody env statement
                (increaseIndent env (emit env ''{\<newline>'' (emit env '')\<newline>'' s3)))) (\<lambda>s5.
       Inr (emit env ''}\<newline>'' (decreaseIndent env s5)))))"

text \<open>
  The declaration of a variable in the prologue of the function (lines 76-82), for a
  variable that the TypeHelper knows.
\<close>

definition declareVariable ::
  "('w, 't) env \<Rightarrow> node \<Rightarrow> VariableInfo \<Rightarrow> 'w Transpiler \<Rightarrow> 'w Transpiler" where
  "declareVariable env nm vi st =
     (let cTypeString =
            (if truthy (type vi)
             then (let ts = getTypeString env st (type vi) in if ts = [] then ''void *'' else ts)
             else ''void *'');
          s1 = (if indexOf cTypeString ''{var}'' \<noteq> - 1
                then emitToBeginningOfFunction env (replace cTypeString ''{var}'' (getText nm)) st
                else emitToBeginningOfFunction env (cTypeString @ '' '' @ getText nm) st)
      in emitToBeginningOfFunction env '';\<newline>'' s1)"

text \<open>The assignment of the initializer of a variable declaration (lines 102-116).\<close>

definition transpileInitializer ::
  "('w, 't) env \<Rightarrow> node \<Rightarrow> VariableInfo \<Rightarrow> node option \<Rightarrow> 'w Transpiler
    \<Rightarrow> exn + 'w Transpiler" where
  "transpileInitializer env nm vi initializer s3 =
     (case initializer of
        None \<Rightarrow> Inr s3
      | Some ini \<Rightarrow>
          if kind ini = ObjectLiteralExpression
          then transpileObjectLiteralAssignment env (getText nm) (properties ini) s3
          else if kind ini = ArrayLiteralExpression
          then transpileArrayLiteralAssignment env
                 (if isDynamicArray vi then name vi @ ''.data'' else name vi) 0 (elements ini) s3
          else andThen (transpileNode env ini (emit env '' = '' (emit env (getText nm) s3)))
                 (\<lambda>s4. Inr (emit env '';\<newline>'' s4)))"

subsection \<open>Collaborators for running the Transpiler\<close>

text \<open>
  Modelled from the spec: the Emitter (\<^verbatim>\<open>emit.ts\<close>) is not part of the sources. Section 4.3
  gives its text buffers and methods: \<open>emit\<close> appends to the current target, with the
  current indentation at the start of a line; \<open>emitToBeginningOfFunction\<close> appends to the
  prologue; \<open>emitOnceToBeginningOfFunction\<close> does so once per text; the headers are a set;
  the indentation changes by two spaces and is never negative; \<open>finalizeFunction\<close> appends
  prologue, body and epilogue to the globals; \<open>finalize\<close> gives the headers and the globals
  and a trailing newline. The texts of the private runtime headers are not given; a
  comment line with the key stands for each.
\<close>

record Emitter =
  transpiledCode :: "EmitTarget \<Rightarrow> string"
  defaultTarget :: EmitTarget
  indent :: nat
  headers :: "HeaderKey list"
  emittedOnce :: "string list"
  iterators :: nat

definition Emitter_emit :: "string \<Rightarrow> Emitter \<Rightarrow> Emitter" where
  "Emitter_emit s e =
     (let t = defaultTarget e;
          code = transpiledCode e t;
          atLineStart = (code = [] \<or> last code = CHR 0x0A);
          indentation = (if atLineStart \<and> s \<noteq> [] then replicate (indent e) CHR '' '' else [])
      in e\<lparr>transpiledCode := (transpiledCode e)(t := code @ indentation @ s)\<rparr>)"

definition Emitter_emitToBeginningOfFunction :: "string \<Rightarrow> Emitter \<Rightarrow> Emitter" where
  "Emitter_emitToBeginningOfFunction s e =
     e\<lparr>transpiledCode := (transpiledCode e)
          (EmitTarget_functionPrologue := transpiledCode e EmitTarget_functionPrologue @ s)\<rparr>"

definition Emitter_emitOnceToBeginningOfFunction :: "string \<Rightarrow> Emitter \<Rightarrow> Emitter" where
  "Emitter_emitOnceToBeginningOfFunction s e =
     (if s \<in> set (emittedOnce e) then e
      else Emitter_emitToBeginningOfFunction s (e\<lparr>emittedOnce := emittedOnce e @ [s]\<rparr>))"

definition Emitter_emitPredefinedHeader :: "HeaderKey \<Rightarrow> Emitter \<Rightarrow> Emitter" where
  "Emitter_emitPredefinedHeader k e =
     (if k \<in> set (headers e) then e else e\<lparr>headers := headers e @ [k]\<rparr>)"

definition Emitter_beginFunction :: "Emitter \<Rightarrow> Emitter" where
  "Emitter_beginFunction e = e\<lparr>defaultTarget := EmitTarget_functionPrologue\<rparr>"

definition Emitter_beginFunctionBody :: "Emitter \<Rightarrow> Emitter" where
  "Emitter_beginFunctionBody e = e\<lparr>defaultTarget := EmitTarget_functionBody\<rparr>"

definition Emitter_finalizeFunction :: "Emitter \<Rightarrow> Emitter" where
  "Emitter_finalizeFunction e =
     e\<lparr>transpiledCode := (transpiledCode e)
          (EmitTarget_globals := transpiledCode e EmitTarget_globals
             @ transpiledCode e EmitTarget_functionPrologue
             @ transpiledCode e EmitTarget_functionBody
             @ transpiledCode e EmitTarget_functionEpilogue,
           EmitTarget_functionPrologue := [],
           EmitTarget_functionBody := [],
           EmitTarget_functionEpilogue := []),
        defaultTarget := EmitTarget_functionBody\<rparr>"

definition Emitter_increaseIndent :: "Emitter \<Rightarrow> Emitter" where
  "Emitter_increaseIndent e = e\<lparr>indent := indent e + 2\<rparr>"

definition Emitter_decreaseIndent :: "Emitter \<Rightarrow> Emitter" where
  "Emitter_decreaseIndent e = e\<lparr>indent := indent e - 2\<rparr>"

fun headerText :: "HeaderKey \<Rightarrow> string" where
  "headerText HeaderKey_stdioh = ''#include <stdio.h>\<newline>''"
| "headerText HeaderKey_stdlibh = ''#include <stdlib.h>\<newline>''"
| "headerText HeaderKey_stringh = ''#include <string.h>\<newline>''"
| "headerText HeaderKey_asserth = ''#include <assert.h>\<newline>''"
| "headerText HeaderKey_bool = ''/* bool */\<newline>''"
| "headerText HeaderKey_js_eq = ''/* js_eq */\<newline>''"
| "headerText HeaderKey_array = ''/* array */\<newline>''"
| "headerText HeaderKey_array_pop = ''/* array_pop */\<newline>''"

definition Emitter_finalize :: "Emitter \<Rightarrow> string" where
  "Emitter_finalize e =
     concat (map headerText
       (filter (\<lambda>k. k \<in> set (headers e))
          [HeaderKey_stdioh, HeaderKey_stdlibh, HeaderKey_stringh, HeaderKey_asserth,
           HeaderKey_bool, HeaderKey_js_eq, HeaderKey_array, HeaderKey_array_pop]))
     @ transpiledCode e EmitTarget_globals @ ''\<newline>''"

definition newEmitter :: Emitter where
  "newEmitter =
     \<lparr>transpiledCode = (\<lambda>t. []), defaultTarget = EmitTarget_functionBody, indent = 0,
      headers = [], emittedOnce = [], iterators = 0\<rparr>"

text \<open>
  Modelled from the spec: the TypeHelper (\<^verbatim>\<open>types.ts\<close>) is not part of the sources. For
  running the Transpiler it is a fixed registry of variables, found by the text of an
  identifier or of a property access; the type of an expression is the type of its
  variable, \<^verbatim>\<open>int16_t\<close> for a number, \<^verbatim>\<open>char *\<close> for a string, \<^verbatim>\<open>uint8_t\<close> for a boolean
  and \<^verbatim>\<open>void *\<close> otherwise (section 4.1). Arrays and structs require allocation
  (section 3). Iterator variables are numbered from 1.
\<close>

definition registry :: "(string \<times> VariableInfo) list" where
  "registry =
     [(''a'', \<lparr>name = ''a'', declaration_pos = 0, type = ArrayType (Primitive ''int16_t'') 3,
               requiresAllocation = True, isDynamicArray = True\<rparr>),
      (''b'', \<lparr>name = ''b'', declaration_pos = 0, type = ArrayType (Primitive ''int16_t'') 5,
               requiresAllocation = True, isDynamicArray = False\<rparr>),
      (''o.arr'', \<lparr>name = ''o.arr'', declaration_pos = 0,
               type = ArrayType (Primitive ''int16_t'') 2,
               requiresAllocation = True, isDynamicArray = True\<rparr>),
      (''s'', \<lparr>name = ''s'', declaration_pos = 0, type = Primitive ''char *'',
               requiresAllocation = False, isDynamicArray = False\<rparr>),
      (''c'', \<lparr>name = ''c'', declaration_pos = 0, type = Primitive ''char *'',
               requiresAllocation = False, isDynamicArray = False\<rparr>),
      (''i'', \<lparr>name = ''i'', declaration_pos = 0, type = Primitive ''int16_t'',
               requiresAllocation = False, isDynamicArray = False\<rparr>),
      (''j'', \<lparr>name = ''j'', declaration_pos = 0, type = Primitive ''int16_t'',
               requiresAllocation = False, isDynamicArray = False\<rparr>),
      (''x'', \<lparr>name = ''x'', declaration_pos = 0, type = Primitive ''int16_t'',
               requiresAllocation = False, isDynamicArray = False\<rparr>),
      (''y'', \<lparr>name = ''y'', declaration_pos = 0, type = Primitive ''int16_t'',
               requiresAllocation = False, isDynamicArray = False\<rparr>)]"

definition TypeHelper_getVariableInfo :: "node \<Rightarrow> VariableInfo option" where
  "TypeHelper_getVariableInfo n =
     (if kind n = Identifier \<or> kind n = PropertyAccessExpression
      then map_of registry (getText n) else None)"

fun TypeHelper_getTypeString :: "CType \<Rightarrow> string" where
  "TypeHelper_getTypeString (Primitive s) = s"
| "TypeHelper_getTypeString (StructType n fs) = ''struct '' @ n @ '' *''"
| "TypeHelper_getTypeString (ArrayType el c) =
     ''struct { '' @ TypeHelper_getTypeString el @ '' *data; int16_t size; int16_t capacity; }''"

definition typeAtLocation :: "node \<Rightarrow> CType" where
  "typeAtLocation n =
     (if kind n = NumericLiteral then Primitive ''int16_t''
      else if kind n = StringLiteral then Primitive ''char *''
      else if kind n = TrueKeyword \<or> kind n = FalseKeyword then Primitive ''uint8_t''
      else (case TypeHelper_getVariableInfo n of
              Some vi \<Rightarrow> type vi
            | None \<Rightarrow> Primitive ''void *''))"

text \<open>
  The names of the kinds, as \<^verbatim>\<open>ts.SyntaxKind[k]\<close> would give them for a kind without an
  alias.
\<close>

fun tokenKindName :: "TokenKind \<Rightarrow> string" where
  "tokenKindName GreaterThanEqualsToken = ''GreaterThanEqualsToken''"
| "tokenKindName GreaterThanToken = ''GreaterThanToken''"
| "tokenKindName LessThanEqualsToken = ''LessThanEqualsToken''"
| "tokenKindName LessThanToken = ''LessThanToken''"
| "tokenKindName EqualsEqualsEqualsToken = ''EqualsEqualsEqualsToken''"
| "tokenKindName EqualsEqualsToken = ''EqualsEqualsToken''"
| "tokenKindName PlusToken = ''PlusToken''"
| "tokenKindName MinusToken = ''MinusToken''"
| "tokenKindName AsteriskToken = ''AsteriskToken''"
| "tokenKindName SlashToken = ''SlashToken''"
| "tokenKindName EqualsToken = ''EqualsToken''"
| "tokenKindName ExclamationToken = ''ExclamationToken''"
| "tokenKindName MinusMinusToken = ''MinusMinusToken''"
| "tokenKindName PlusPlusToken = ''PlusPlusToken''"
| "tokenKindName (UnlistedKind s) = s"

fun syntaxKindName :: "SyntaxKind \<Rightarrow> string" where
  "syntaxKindName (Token k) = tokenKindName k"
| "syntaxKindName VariableDeclarationList = ''VariableDeclarationList''"
| "syntaxKindName ObjectLiteralExpression = ''ObjectLiteralExpression''"
| "syntaxKindName ArrayLiteralExpression = ''ArrayLiteralExpression''"
| "syntaxKindName PropertyAssignment = ''PropertyAssignment''"
| "syntaxKindName PrefixUnaryExpression = ''PrefixUnaryExpression''"
| "syntaxKindName PostfixUnaryExpression = ''PostfixUnaryExpression''"
| "syntaxKindName k = ''''"

text \<open>
  The collaborators together. No variable escapes and nothing is released, so the
  MemoryManager emits nothing (section 4.2); the printf sub-transpiler is not used below
  and emits nothing; every function is \<^verbatim>\<open>void f()\<close>.
\<close>

definition collaborators0 :: "(Emitter, CType) env" where
  "collaborators0 =
     \<lparr>em_emit = Emitter_emit,
      em_emitToBeginningOfFunction = Emitter_emitToBeginningOfFunction,
      em_emitOnceToBeginningOfFunction = Emitter_emitOnceToBeginningOfFunction,
      em_emitPredefinedHeader = Emitter_emitPredefinedHeader,
      em_beginFunction = Emitter_beginFunction,
      em_beginFunctionBody = Emitter_beginFunctionBody,
      em_finalizeFunction = Emitter_finalizeFunction,
      em_increaseIndent = Emitter_increaseIndent,
      em_decreaseIndent = Emitter_decreaseIndent,
      em_finalize = Emitter_finalize,
      em_defaultTarget = defaultTarget,
      em_transpiledCode = transpiledCode,
      em_set_transpiledCode = (\<lambda>t s e. e\<lparr>transpiledCode := (transpiledCode e)(t := s)\<rparr>),
      th_figureOutVariablesAndTypes = (\<lambda>n e. e),
      th_getVariableInfo = (\<lambda>e n. TypeHelper_getVariableInfo n),
      th_convertType = (\<lambda>e ty ident. ty),
      th_getTypeString = (\<lambda>e ct. TypeHelper_getTypeString ct),
      th_addNewIteratorVariable =
        (\<lambda>n e. (''iterator_'' @ numberToString (int (iterators e) + 1),
                e\<lparr>iterators := iterators e + 1\<rparr>)),
      mm_preprocess = (\<lambda>e. e),
      mm_insertGCVariablesCreationIfNecessary = (\<lambda>scope e. e),
      mm_insertGlobalPointerIfNecessary = (\<lambda>decl pos expr e. e),
      mm_insertDestructorsIfNecessary = (\<lambda>scope e. e),
      pf_transpile = (\<lambda>n st. Inr st),
      tc_getSignatureFromDeclaration =
        (\<lambda>n. \<lparr>getReturnType = Primitive ''void'', parameters = []\<rparr>),
      tc_getTypeAtLocation = typeAtLocation,
      ts_SyntaxKind_name = syntaxKindName\<rparr>"

definition newTranspiler :: "Emitter Transpiler" where
  "newTranspiler = \<lparr>errors = [], collaborators = newEmitter\<rparr>"

text \<open>The text that a Transpiler has emitted to a target, if it has not thrown.\<close>

definition emitted :: "EmitTarget \<Rightarrow> exn + Emitter Transpiler \<Rightarrow> string option" where
  "emitted t r = (case r of Inl e \<Rightarrow> None | Inr st \<Rightarrow> Some (transpiledCode (collaborators st) t))"

definition recorded :: "exn + 'w Transpiler \<Rightarrow> string list option" where
  "recorded r = (case r of Inl e \<Rightarrow> None | Inr st \<Rightarrow> Some (errors st))"

section \<open>Properties\<close>

subsection \<open>Auxiliary facts\<close>

lemma andThen_Inr [simp]: "andThen (Inr x) f = f x"
  by (simp add: andThen_def)

lemma andThen_Inl [simp]: "andThen (Inl e) f = Inl e"
  by (simp add: andThen_def)

lemma slice_without_quotes: "slice (q # body @ [q']) 1 (- 1) = body"
  by (simp add: slice_def Let_def)

text \<open>
  Running the Transpiler on a concrete tree is done in two steps: \<open>walk\<close> unfolds the
  calls of the collaborators and the TypeHelper, which leaves the chain of calls to the
  Emitter; \<open>buffers\<close> then evaluates that chain from the inside. \<open>run\<close> does both at once,
  for short chains.
\<close>

lemmas collaborator_calls =
  onCollaborators_def emit_def emitToBeginningOfFunction_def emitOnceToBeginningOfFunction_def
  emitPredefinedHeader_def beginFunction_def beginFunctionBody_def finalizeFunction_def
  increaseIndent_def decreaseIndent_def stripTrailingSemicolon_def
  insertGCVariablesCreationIfNecessary_def insertGlobalPointerIfNecessary_def
  insertDestructorsIfNecessary_def getVariableInfo_def convertType_def getTypeString_def
  addNewIteratorVariable_def addError_def

lemmas run =
  collaborator_calls collaborators0_def newTranspiler_def newEmitter_def Emitter_emit_def
  Emitter_emitToBeginningOfFunction_def Emitter_emitOnceToBeginningOfFunction_def
  Emitter_emitPredefinedHeader_def Emitter_beginFunction_def Emitter_beginFunctionBody_def
  Emitter_finalizeFunction_def Emitter_increaseIndent_def Emitter_decreaseIndent_def
  Emitter_finalize_def TypeHelper_getVariableInfo_def typeAtLocation_def registry_def
  emitted_def recorded_def Let_def

lemmas walk =
  collaborator_calls collaborators0_def TypeHelper_getVariableInfo_def typeAtLocation_def
  registry_def emitted_def recorded_def Let_def

lemmas buffers =
  newTranspiler_def newEmitter_def Emitter_emit_def Emitter_emitToBeginningOfFunction_def
  Emitter_emitOnceToBeginningOfFunction_def Emitter_emitPredefinedHeader_def
  Emitter_beginFunction_def Emitter_beginFunctionBody_def Emitter_finalizeFunction_def
  Emitter_increaseIndent_def Emitter_decreaseIndent_def Emitter_finalize_def Let_def

subsection \<open>C9: a function declaration without statements\<close>

text \<open>
  C9. For every function declaration whose body contains no statements, transpiling throws
  an exception: after the empty loop over the statements the handler reads the kind of
  the last statement (line 56), which does not exist. No error is recorded and no C is
  returned. This holds for every state of the Transpiler and all collaborators.
\<close>

theorem functionDeclaration_without_statements_throws:
  "transpileNode env (FunctionDeclarationNode t nm (Some [])) st = Inl TypeError"
  by (simp add: Let_def)

theorem functionDeclaration_without_statements_throws_witness:
  "transpileNode collaborators0
     (FunctionDeclarationNode ''function f() {}'' (IdentifierNode ''f'') (Some []))
     newTranspiler = Inl TypeError"
  by (rule functionDeclaration_without_statements_throws)

subsection \<open>C5: assignments inside expressions\<close>

text \<open>
  C5. For every assignment expression (operator \<^verbatim>\<open>=\<close>) whose parent node is not an
  expression statement, the Transpiler records exactly the error message
  "Assignments inside expressions are not yet supported." and emits no C for the
  assignment: the message is appended to the errors, and the collaborators (the Emitter
  among them) stay as they are.
\<close>

theorem assignment_inside_expression_is_an_error:
  assumes "kind operatorToken = Token EqualsToken"
    and "parentKind \<noteq> ExpressionStatement"
  shows "transpileNode env (BinaryExpressionNode t parentKind left operatorToken right) st =
    Inr (st\<lparr>errors := errors st @ [''Assignments inside expressions are not yet supported.'']\<rparr>)"
  using assms by (simp add: Let_def addError_def)

theorem assignment_inside_expression_is_an_error_witness:
  "kind (TokenNode ''='' EqualsToken) = Token EqualsToken
   \<and> ForStatement \<noteq> ExpressionStatement
   \<and> transpileNode collaborators0
       (BinaryExpressionNode ''i = 1'' ForStatement (IdentifierNode ''i'')
          (TokenNode ''='' EqualsToken) (NumericLiteralNode ''1'')) newTranspiler =
     Inr (newTranspiler\<lparr>errors := [''Assignments inside expressions are not yet supported.'']\<rparr>)"
  using assignment_inside_expression_is_an_error
    [of "TokenNode ''='' EqualsToken" ForStatement collaborators0 "''i = 1''"
      "IdentifierNode ''i''" "NumericLiteralNode ''1''" newTranspiler]
  by (simp add: newTranspiler_def)

subsection \<open>C10: element access with a string literal\<close>

text \<open>
  C10. For every element access \<^verbatim>\<open>x["lit"]\<close> where the index is a string literal and \<^verbatim>\<open>x\<close> is
  an identifier, the emitted C is \<^verbatim>\<open>x->lit\<close>: the text of the identifier, the arrow, and
  the text of the literal without its quotes. The branch is taken before the TypeHelper
  is asked, so this holds whatever the type of \<^verbatim>\<open>x\<close> is, also for an array; neither the
  array lowering nor \<^verbatim>\<open>js_get\<close> is used.
\<close>

theorem elementAccess_with_string_literal:
  assumes "kind x = Identifier"
    and "kind lit = StringLiteral"
    and "getText lit = q # member @ [q']"
  shows "transpileNode env (ElementAccessExpressionNode t x lit) st =
    Inr (emit env member (emit env ''->'' (emit env (getText x) st)))"
  using assms by (simp add: Let_def slice_without_quotes)

theorem elementAccess_with_string_literal_witness:
  "kind (IdentifierNode ''a'') = Identifier
   \<and> kind (StringLiteralNode (CHR 0x22 # ''size'' @ [CHR 0x22])) = StringLiteral
   \<and> getText (StringLiteralNode (CHR 0x22 # ''size'' @ [CHR 0x22])) = CHR 0x22 # ''size'' @ [CHR 0x22]
   \<and> (\<exists>vi el c. getVariableInfo collaborators0 newTranspiler (IdentifierNode ''a'') = Some vi
         \<and> type vi = ArrayType el c)
   \<and> emitted EmitTarget_functionBody (transpileNode collaborators0
        (ElementAccessExpressionNode (''a['' @ CHR 0x22 # ''size'' @ [CHR 0x22] @ '']'')
           (IdentifierNode ''a'')
           (StringLiteralNode (CHR 0x22 # ''size'' @ [CHR 0x22]))) newTranspiler) = Some ''a->size''"
  using elementAccess_with_string_literal
    [of "IdentifierNode ''a''" "StringLiteralNode (CHR 0x22 # ''size'' @ [CHR 0x22])"
      "CHR 0x22" "''size''" "CHR 0x22" collaborators0
      "''a['' @ CHR 0x22 # ''size'' @ [CHR 0x22] @ '']''" newTranspiler]
  by (simp add: run)

subsection \<open>C2: the length of an array\<close>

text \<open>
  C2 as stated fails: the claim covers every \<^verbatim>\<open>.length\<close> on an expression that the
  TypeHelper knows as an array, "not only when the accessed expression is a plain
  identifier". The handler tests \<^verbatim>\<open>propAccess.expression.kind == Identifier\<close> first
  (line 332). For \<^verbatim>\<open>o.arr.length\<close>, where the TypeHelper knows \<^verbatim>\<open>o.arr\<close> as a dynamic array,
  the emitted C is \<^verbatim>\<open>o->arr->length\<close> and not \<^verbatim>\<open>o.arr.size\<close>.
\<close>

theorem length_of_array_counterexample:
  "getVariableInfo collaborators0 newTranspiler
     (PropertyAccessExpressionNode ''o.arr'' (IdentifierNode ''o'') (IdentifierNode ''arr'')) =
     Some \<lparr>name = ''o.arr'', declaration_pos = 0, type = ArrayType (Primitive ''int16_t'') 2,
            requiresAllocation = True, isDynamicArray = True\<rparr>
   \<and> emitted EmitTarget_functionBody (transpileNode collaborators0
        (PropertyAccessExpressionNode ''o.arr.length''
           (PropertyAccessExpressionNode ''o.arr'' (IdentifierNode ''o'') (IdentifierNode ''arr''))
           (IdentifierNode ''length'')) newTranspiler) = Some ''o->arr->length''
   \<and> emitted EmitTarget_functionBody (transpileNode collaborators0
        (PropertyAccessExpressionNode ''o.arr.length''
           (PropertyAccessExpressionNode ''o.arr'' (IdentifierNode ''o'') (IdentifierNode ''arr''))
           (IdentifierNode ''length'')) newTranspiler) \<noteq> Some ''o.arr.size''"
  by (simp add: run)

text \<open>
  C2, amended. For every property access \<^verbatim>\<open>x.length\<close> where \<^verbatim>\<open>x\<close> is an identifier that the
  TypeHelper knows as a variable of array type, the emitted C is \<^verbatim>\<open>x.size\<close> when the
  variable is a dynamic array and the capacity as a number when it is not, and nothing
  else is emitted (no runtime call). When the accessed expression is not an identifier,
  the handler emits the member access \<^verbatim>\<open>x->length\<close>.
\<close>

theorem length_of_array_identifier:
  "(kind x = Identifier \<and> getText nm = ''length'' \<and> getVariableInfo env st x = Some vi
      \<and> type vi = ArrayType el c
    \<longrightarrow> transpileNode env (PropertyAccessExpressionNode t x nm) st =
        Inr (if isDynamicArray vi
             then emit env ''size'' (emit env ''.'' (emit env (getText x) st))
             else emit env (numberToString c) st))
   \<and> (kind x \<noteq> Identifier
    \<longrightarrow> transpileNode env (PropertyAccessExpressionNode t x nm) st =
        andThen (transpileNode env x st) (\<lambda>s1. Inr (emit env (getText nm) (emit env ''->'' s1))))"
  by (simp add: Let_def)

theorem length_of_array_identifier_witness:
  "kind (IdentifierNode ''a'') = Identifier
   \<and> getVariableInfo collaborators0 newTranspiler (IdentifierNode ''a'') =
       Some \<lparr>name = ''a'', declaration_pos = 0, type = ArrayType (Primitive ''int16_t'') 3,
              requiresAllocation = True, isDynamicArray = True\<rparr>
   \<and> emitted EmitTarget_functionBody (transpileNode collaborators0
        (PropertyAccessExpressionNode ''a.length'' (IdentifierNode ''a'') (IdentifierNode ''length''))
        newTranspiler) = Some ''a.size''
   \<and> getVariableInfo collaborators0 newTranspiler (IdentifierNode ''b'') =
       Some \<lparr>name = ''b'', declaration_pos = 0, type = ArrayType (Primitive ''int16_t'') 5,
              requiresAllocation = True, isDynamicArray = False\<rparr>
   \<and> emitted EmitTarget_functionBody (transpileNode collaborators0
        (PropertyAccessExpressionNode ''b.length'' (IdentifierNode ''b'') (IdentifierNode ''length''))
        newTranspiler) = Some ''5''"
proof -
  let ?a = "\<lparr>name = ''a'', declaration_pos = 0, type = ArrayType (Primitive ''int16_t'') 3,
              requiresAllocation = True, isDynamicArray = True\<rparr>"
  let ?b = "\<lparr>name = ''b'', declaration_pos = 0, type = ArrayType (Primitive ''int16_t'') 5,
              requiresAllocation = True, isDynamicArray = False\<rparr>"
  have a: "getVariableInfo collaborators0 newTranspiler (IdentifierNode ''a'') = Some ?a"
    and b: "getVariableInfo collaborators0 newTranspiler (IdentifierNode ''b'') = Some ?b"
    by (simp_all add: run)
  have five: "numberToString 5 = ''5''"
    by code_simp
  from a length_of_array_identifier
    [of "IdentifierNode ''a''" "IdentifierNode ''length''" collaborators0 newTranspiler ?a
      "Primitive ''int16_t''" 3 "''a.length''"]
  have "transpileNode collaborators0
      (PropertyAccessExpressionNode ''a.length'' (IdentifierNode ''a'') (IdentifierNode ''length''))
      newTranspiler =
      Inr (emit collaborators0 ''size'' (emit collaborators0 ''.''
            (emit collaborators0 ''a'' newTranspiler)))"
    by simp
  moreover from b length_of_array_identifier
    [of "IdentifierNode ''b''" "IdentifierNode ''length''" collaborators0 newTranspiler ?b
      "Primitive ''int16_t''" 5 "''b.length''"]
  have "transpileNode collaborators0
      (PropertyAccessExpressionNode ''b.length'' (IdentifierNode ''b'') (IdentifierNode ''length''))
      newTranspiler = Inr (emit collaborators0 ''5'' newTranspiler)"
    by (simp add: five)
  ultimately show ?thesis
    using a b by (simp add: run)
qed

subsection \<open>C3: the equality operator\<close>

text \<open>
  C3 as stated fails: the claim gives \<^verbatim>\<open>js_eq\<close> "exactly when both operands are not
  \<^verbatim>\<open>int16_t\<close>" and the plain operator otherwise. The condition of line 400 is
  \<^verbatim>\<open>leftType != 'int16_t' || rightType != 'int16_t'\<close>: one operand that is not \<^verbatim>\<open>int16_t\<close> is
  enough. For \<^verbatim>\<open>1 == s\<close> with a number on the left and a string variable on the right,
  the left operand is \<^verbatim>\<open>int16_t\<close>, and the emitted C is \<^verbatim>\<open>js_eq(1, s)\<close>, not \<^verbatim>\<open>1 == s\<close>.
\<close>

theorem equality_counterexample:
  "convertType collaborators0 newTranspiler
     (tc_getTypeAtLocation collaborators0 (NumericLiteralNode ''1'')) None = Primitive ''int16_t''
   \<and> convertType collaborators0 newTranspiler
     (tc_getTypeAtLocation collaborators0 (IdentifierNode ''s'')) None = Primitive ''char *''
   \<and> emitted EmitTarget_functionBody (transpileNode collaborators0
        (BinaryExpressionNode ''1 == s'' IfStatement (NumericLiteralNode ''1'')
           (TokenNode ''=='' EqualsEqualsToken) (IdentifierNode ''s'')) newTranspiler) =
       Some ''js_eq(1, s)''
   \<and> emitted EmitTarget_functionBody (transpileNode collaborators0
        (BinaryExpressionNode ''1 == s'' IfStatement (NumericLiteralNode ''1'')
           (TokenNode ''=='' EqualsEqualsToken) (IdentifierNode ''s'')) newTranspiler) \<noteq>
       Some ''1 == s''"
  by (simp add: run)

text \<open>
  C3, amended. For every binary \<^verbatim>\<open>==\<close> expression: if both operand types are \<^verbatim>\<open>char *\<close> the
  emitted C is \<^verbatim>\<open>strcmp(left, right) == 0\<close> and the header \<^verbatim>\<open><string.h>\<close> is added;
  otherwise, exactly when at least one operand type is not \<^verbatim>\<open>int16_t\<close>, the header of
  \<^verbatim>\<open>js_eq\<close> is added and the emitted C is \<^verbatim>\<open>js_eq(left, right)\<close>; otherwise (both operands
  are \<^verbatim>\<open>int16_t\<close>) the operands are emitted around the plain operator \<^verbatim>\<open>" == "\<close>.
\<close>

theorem equality_lowering:
  assumes "kind operatorToken = Token EqualsEqualsToken"
    and "leftType = convertType env st (tc_getTypeAtLocation env left) None"
    and "rightType = convertType env st (tc_getTypeAtLocation env right) None"
  shows "transpileNode env (BinaryExpressionNode t parentKind left operatorToken right) st =
    (if leftType = Primitive ''char *'' \<and> rightType = Primitive ''char *''
     then
       andThen (transpileNode env left (emit env ''strcmp('' st)) (\<lambda>s1.
       andThen (transpileNode env right (emit env '', '' s1)) (\<lambda>s2.
         Inr (emitPredefinedHeader env HeaderKey_stringh (emit env '') == 0'' s2))))
     else if leftType \<noteq> Primitive ''int16_t'' \<or> rightType \<noteq> Primitive ''int16_t''
     then
       andThen (transpileNode env left
          (emit env ''js_eq('' (emitPredefinedHeader env HeaderKey_js_eq st))) (\<lambda>s1.
       andThen (transpileNode env right (emit env '', '' s1)) (\<lambda>s2.
         Inr (emit env '')'' s2)))
     else
       andThen (transpileNode env left st) (\<lambda>s1.
         transpileNode env right (emit env '' == '' s1)))"
  using assms by (simp add: Let_def convertOperatorToken_def)

theorem equality_lowering_witness:
  "kind (TokenNode ''=='' EqualsEqualsToken) = Token EqualsEqualsToken
   \<and> emitted EmitTarget_functionBody (transpileNode collaborators0
        (BinaryExpressionNode ''s == c'' IfStatement (IdentifierNode ''s'')
           (TokenNode ''=='' EqualsEqualsToken) (IdentifierNode ''c'')) newTranspiler) =
       Some ''strcmp(s, c) == 0''
   \<and> emitted EmitTarget_functionBody (transpileNode collaborators0
        (BinaryExpressionNode ''x == y'' IfStatement (IdentifierNode ''x'')
           (TokenNode ''=='' EqualsEqualsToken) (IdentifierNode ''y'')) newTranspiler) =
       Some ''x == y''"
proof -
  have k: "kind (TokenNode ''=='' EqualsEqualsToken) = Token EqualsEqualsToken"
    by simp
  have s: "Primitive ''char *'' = convertType collaborators0 newTranspiler
      (tc_getTypeAtLocation collaborators0 (IdentifierNode ''s'')) None"
    and c: "Primitive ''char *'' = convertType collaborators0 newTranspiler
      (tc_getTypeAtLocation collaborators0 (IdentifierNode ''c'')) None"
    and x: "Primitive ''int16_t'' = convertType collaborators0 newTranspiler
      (tc_getTypeAtLocation collaborators0 (IdentifierNode ''x'')) None"
    and y: "Primitive ''int16_t'' = convertType collaborators0 newTranspiler
      (tc_getTypeAtLocation collaborators0 (IdentifierNode ''y'')) None"
    by (simp_all add: run)
  have strings: "transpileNode collaborators0
      (BinaryExpressionNode ''s == c'' IfStatement (IdentifierNode ''s'')
         (TokenNode ''=='' EqualsEqualsToken) (IdentifierNode ''c'')) newTranspiler =
      Inr (emitPredefinedHeader collaborators0 HeaderKey_stringh
        (emit collaborators0 '') == 0'' (emit collaborators0 ''c''
          (emit collaborators0 '', '' (emit collaborators0 ''s''
            (emit collaborators0 ''strcmp('' newTranspiler))))))"
    by (subst equality_lowering [OF k s c]) simp
  have numbers: "transpileNode collaborators0
      (BinaryExpressionNode ''x == y'' IfStatement (IdentifierNode ''x'')
         (TokenNode ''=='' EqualsEqualsToken) (IdentifierNode ''y'')) newTranspiler =
      Inr (emit collaborators0 ''y'' (emit collaborators0 '' == ''
        (emit collaborators0 ''x'' newTranspiler)))"
    by (subst equality_lowering [OF k x y]) simp
  show ?thesis
    unfolding strings numbers by (simp add: run)
qed

subsection \<open>C4: braces around the branches of an if statement\<close>

text \<open>
  C4 says that the emitted C surrounds the branch of an if statement with braces, also
  when the source branch is a single statement that is not a block. The handler of the if
  statement (lines 128-148) emits no brace: for a branch that is not a block it only
  changes the indentation (lines 134-138 and 141-145), where the handlers of while, do,
  for and for-of emit the braces themselves. For \<^verbatim>\<open>if (x) y;\<close> the emitted C is the
  condition line and the indented statement. For \<^verbatim>\<open>if (x) b = [1, 2];\<close> the branch
  becomes several C statements, of which only the first is under the \<^verbatim>\<open>if\<close>, and no
  error is recorded; the same holds of the else branch.
\<close>

theorem if_branch_without_braces:
  "emitted EmitTarget_functionBody (transpileNode collaborators0
      (IfStatementNode ''if (x) y;'' (IdentifierNode ''x'')
         (ExpressionStatementNode ''y;'' [IdentifierNode ''y'', SemicolonTokenNode '';'']) None)
      newTranspiler) = Some ''if (x)\<newline>  y;\<newline>''
   \<and> emitted EmitTarget_functionBody (transpileNode collaborators0
        (IfStatementNode ''if (x) b = [1, 2];'' (IdentifierNode ''x'')
           (ExpressionStatementNode ''b = [1, 2];''
              [BinaryExpressionNode ''b = [1, 2]'' ExpressionStatement (IdentifierNode ''b'')
                 (TokenNode ''='' EqualsToken)
                 (ArrayLiteralExpressionNode ''[1, 2]''
                    [NumericLiteralNode ''1'', NumericLiteralNode ''2'']),
               SemicolonTokenNode '';'']) None)
        newTranspiler) =
       Some ''if (x)\<newline>  b[0] = 1;\<newline>  b[1] = 2;\<newline>  ;\<newline>''
   \<and> recorded (transpileNode collaborators0
        (IfStatementNode ''if (x) b = [1, 2];'' (IdentifierNode ''x'')
           (ExpressionStatementNode ''b = [1, 2];''
              [BinaryExpressionNode ''b = [1, 2]'' ExpressionStatement (IdentifierNode ''b'')
                 (TokenNode ''='' EqualsToken)
                 (ArrayLiteralExpressionNode ''[1, 2]''
                    [NumericLiteralNode ''1'', NumericLiteralNode ''2'']),
               SemicolonTokenNode '';'']) None)
        newTranspiler) = Some []
   \<and> emitted EmitTarget_functionBody (transpileNode collaborators0
        (IfStatementNode ''if (x) y; else b = [1, 2];'' (IdentifierNode ''x'')
           (ExpressionStatementNode ''y;'' [IdentifierNode ''y'', SemicolonTokenNode '';''])
           (Some (ExpressionStatementNode ''b = [1, 2];''
              [BinaryExpressionNode ''b = [1, 2]'' ExpressionStatement (IdentifierNode ''b'')
                 (TokenNode ''='' EqualsToken)
                 (ArrayLiteralExpressionNode ''[1, 2]''
                    [NumericLiteralNode ''1'', NumericLiteralNode ''2'']),
               SemicolonTokenNode '';''])))
        newTranspiler) =
       Some (''if (x)\<newline>  y;\<newline>else\<newline>''
             @ ''  b[0] = 1;\<newline>  b[1] = 2;\<newline>  ;\<newline>'')"
proof -
  have zero: "numberToString 0 = ''0''"
    by code_simp
  have one: "numberToString 1 = ''1''"
    by code_simp
  show ?thesis
    apply (simp add: walk)
    apply (simp add: buffers zero one)
    done
qed

subsection \<open>C8: the allocation of a dynamic array\<close>

text \<open>
  C8. For every variable declaration whose type is a dynamic array with capacity \<open>c\<close>, the
  emitted allocation is \<^verbatim>\<open>ARRAY_CREATE(name, max(c * 2, 4), c)\<close>: the physical capacity is
  the integer maximum of \<open>2 * c\<close> and \<open>4\<close>, the logical size is \<open>c\<close>; and the headers for
  \<^verbatim>\<open>assert\<close> and \<^verbatim>\<open>stdlib\<close> are added. The handler allocates when the TypeHelper says
  that the variable requires allocation and its type is an array (lines 84-86); the
  TypeHelper says so for every array (section 3 of the specification), which is the
  third hypothesis. The declaration in the prologue comes before, the entry in the table
  of global pointers and the assignment of the initializer come after.
\<close>

theorem dynamic_array_allocation:
  assumes "getVariableInfo env st nm = Some vi"
    and "type vi = ArrayType el c"
    and "requiresAllocation vi"
  shows "transpileNode env (VariableDeclarationNode t nm initializer) st =
    transpileInitializer env nm vi initializer
      (insertGlobalPointerIfNecessary env (VariableDeclarationNode t nm initializer)
         (declaration_pos vi) (name vi @ ''.data'')
         (emitPredefinedHeader env HeaderKey_stdlibh
           (emitPredefinedHeader env HeaderKey_asserth
             (emit env (''ARRAY_CREATE('' @ name vi @ '', '' @ numberToString (max (c * 2) 4)
                          @ '', '' @ numberToString c @ '');\<newline>'')
               (declareVariable env nm vi st)))))"
  using assms
  by (simp add: Let_def declareVariable_def transpileInitializer_def split: option.splits)

theorem dynamic_array_allocation_witness:
  "getVariableInfo collaborators0 newTranspiler (IdentifierNode ''a'') =
     Some \<lparr>name = ''a'', declaration_pos = 0, type = ArrayType (Primitive ''int16_t'') 3,
            requiresAllocation = True, isDynamicArray = True\<rparr>
   \<and> emitted EmitTarget_functionBody (transpileNode collaborators0
        (VariableDeclarationNode ''a = []'' (IdentifierNode ''a'')
           (Some (ArrayLiteralExpressionNode ''[]'' []))) newTranspiler) =
       Some ''ARRAY_CREATE(a, 6, 3);\<newline>''
   \<and> (case transpileNode collaborators0
        (VariableDeclarationNode ''a = []'' (IdentifierNode ''a'')
           (Some (ArrayLiteralExpressionNode ''[]'' []))) newTranspiler of
         Inl e \<Rightarrow> [] | Inr st \<Rightarrow> headers (collaborators st)) =
       [HeaderKey_asserth, HeaderKey_stdlibh]"
proof -
  let ?a = "\<lparr>name = ''a'', declaration_pos = 0, type = ArrayType (Primitive ''int16_t'') 3,
              requiresAllocation = True, isDynamicArray = True\<rparr>"
  have a: "getVariableInfo collaborators0 newTranspiler (IdentifierNode ''a'') = Some ?a"
    by (simp add: run)
  have six: "numberToString 6 = ''6''" and three: "numberToString 3 = ''3''"
    by code_simp+
  have "transpileNode collaborators0
      (VariableDeclarationNode ''a = []'' (IdentifierNode ''a'')
         (Some (ArrayLiteralExpressionNode ''[]'' []))) newTranspiler =
      transpileInitializer collaborators0 (IdentifierNode ''a'') ?a
        (Some (ArrayLiteralExpressionNode ''[]'' []))
        (insertGlobalPointerIfNecessary collaborators0
           (VariableDeclarationNode ''a = []'' (IdentifierNode ''a'')
              (Some (ArrayLiteralExpressionNode ''[]'' [])))
           0 ''a.data''
           (emitPredefinedHeader collaborators0 HeaderKey_stdlibh
             (emitPredefinedHeader collaborators0 HeaderKey_asserth
               (emit collaborators0 ''ARRAY_CREATE(a, 6, 3);\<newline>''
                 (declareVariable collaborators0 (IdentifierNode ''a'') ?a newTranspiler)))))"
    by (subst dynamic_array_allocation [OF a, of "Primitive ''int16_t''" 3])
      (simp_all add: six three)
  then show ?thesis
    using a
    apply (simp add: walk declareVariable_def transpileInitializer_def)
    apply (simp add: buffers)
    done
qed

subsection \<open>C6: the initializer of a for statement\<close>

text \<open>
  C6. For every for statement whose initializer is a list of variable declarations (of
  two or more; the same holds for one), all declarations except the last are transpiled
  as declarations of their own before \<^verbatim>\<open>for (\<close> is emitted. If the last declaration does
  not require allocation it is transpiled after \<^verbatim>\<open>for (\<close>, inside the header, and then the
  trailing \<^verbatim>\<open>";\n"\<close> of the current target is stripped; otherwise it is transpiled before
  \<^verbatim>\<open>for (\<close> as well and the header goes on with \<^verbatim>\<open>;\<close> at once, the initializer slot being
  empty. Stripping removes exactly a trailing \<^verbatim>\<open>";\n"\<close>. The separators of the header are
  emitted as \<^verbatim>\<open>";"\<close>, without a blank.
\<close>

theorem for_with_declarations:
  assumes "kind forInitializer = VariableDeclarationList"
    and "declarations forInitializer \<noteq> []"
    and "last (declarations forInitializer) = VariableDeclarationNode t' nm ini"
  shows "transpileNode env
      (ForStatementNode t (Some forInitializer) condition incrementor statement) st =
    andThen (forEachNode env (butlast (declarations forInitializer)) st) (\<lambda>s1.
      case getVariableInfo env s1 nm of
        None \<Rightarrow> Inl TypeError
      | Some lastChildVarInfo \<Rightarrow>
          if requiresAllocation lastChildVarInfo
          then andThen (transpileNode env (last (declarations forInitializer)) s1) (\<lambda>s2.
                 transpileForFromCondition env condition incrementor statement
                   (emit env ''for ('' s2))
          else andThen (transpileNode env (last (declarations forInitializer))
                          (emit env ''for ('' s1)) (\<lambda>s2.
                 transpileForFromCondition env condition incrementor statement
                   (stripTrailingSemicolon env s2)))
    \<and> stripSemicolonNewline (code @ '';\<newline>'') = code"
proof -
  have hoisted: "take (length (declarations forInitializer) - 1) (declarations forInitializer) =
      butlast (declarations forInitializer)"
    by (simp add: butlast_conv_take)
  have stripped: "stripSemicolonNewline (code @ '';\<newline>'') = code"
    by (simp add: stripSemicolonNewline_def suffix_def)
  have "transpileNode env
      (ForStatementNode t (Some forInitializer) condition incrementor statement) st =
    andThen (forEachNode env (butlast (declarations forInitializer)) st) (\<lambda>s1.
      case getVariableInfo env s1 nm of
        None \<Rightarrow> Inl TypeError
      | Some lastChildVarInfo \<Rightarrow>
          if requiresAllocation lastChildVarInfo
          then andThen (transpileNode env (last (declarations forInitializer)) s1) (\<lambda>s2.
                 transpileForFromCondition env condition incrementor statement
                   (emit env ''for ('' s2))
          else andThen (transpileNode env (last (declarations forInitializer))
                          (emit env ''for ('' s1)) (\<lambda>s2.
                 transpileForFromCondition env condition incrementor statement
                   (stripTrailingSemicolon env s2)))"
  proof (cases "forEachNode env (butlast (declarations forInitializer)) st")
    case (Inl e)
    with assms hoisted show ?thesis
      by (simp add: Let_def)
  next
    case (Inr s1)
    with assms hoisted show ?thesis
      by (simp add: Let_def transpileForFromCondition_def transpileLoopBody_def
            split: option.splits)
  qed
  with stripped show ?thesis
    by simp
qed

theorem for_with_declarations_witness:
  "kind (VariableDeclarationListNode ''let i = 0, j = 0''
      [VariableDeclarationNode ''i = 0'' (IdentifierNode ''i'') (Some (NumericLiteralNode ''0'')),
       VariableDeclarationNode ''j = 0'' (IdentifierNode ''j'') (Some (NumericLiteralNode ''0''))])
     = VariableDeclarationList
   \<and> emitted EmitTarget_functionBody (transpileNode collaborators0
        (ForStatementNode ''for (let i = 0, j = 0; i < 10; i++) { }''
           (Some (VariableDeclarationListNode ''let i = 0, j = 0''
              [VariableDeclarationNode ''i = 0'' (IdentifierNode ''i'')
                 (Some (NumericLiteralNode ''0'')),
               VariableDeclarationNode ''j = 0'' (IdentifierNode ''j'')
                 (Some (NumericLiteralNode ''0''))]))
           (Some (BinaryExpressionNode ''i < 10'' ForStatement (IdentifierNode ''i'')
              (TokenNode ''<'' LessThanToken) (NumericLiteralNode ''10'')))
           (Some (PostfixUnaryExpressionNode ''i++'' (IdentifierNode ''i'') PlusPlusToken))
           (BlockNode ''{ }'' []
              [TokenNode ''{'' (UnlistedKind ''OpenBraceToken''), SyntaxListNode [] [],
               TokenNode ''}'' (UnlistedKind ''CloseBraceToken'')])) newTranspiler) =
       Some ''i = 0;\<newline>for (j = 0;i < 10;i++)\<newline>{\<newline>}\<newline>''
   \<and> emitted EmitTarget_functionPrologue (transpileNode collaborators0
        (ForStatementNode ''for (let i = 0, j = 0; i < 10; i++) { }''
           (Some (VariableDeclarationListNode ''let i = 0, j = 0''
              [VariableDeclarationNode ''i = 0'' (IdentifierNode ''i'')
                 (Some (NumericLiteralNode ''0'')),
               VariableDeclarationNode ''j = 0'' (IdentifierNode ''j'')
                 (Some (NumericLiteralNode ''0''))]))
           (Some (BinaryExpressionNode ''i < 10'' ForStatement (IdentifierNode ''i'')
              (TokenNode ''<'' LessThanToken) (NumericLiteralNode ''10'')))
           (Some (PostfixUnaryExpressionNode ''i++'' (IdentifierNode ''i'') PlusPlusToken))
           (BlockNode ''{ }'' []
              [TokenNode ''{'' (UnlistedKind ''OpenBraceToken''), SyntaxListNode [] [],
               TokenNode ''}'' (UnlistedKind ''CloseBraceToken'')])) newTranspiler) =
       Some ''int16_t i;\<newline>int16_t j;\<newline>''"
proof -
  let ?i = "VariableDeclarationNode ''i = 0'' (IdentifierNode ''i'')
      (Some (NumericLiteralNode ''0''))"
  let ?j = "VariableDeclarationNode ''j = 0'' (IdentifierNode ''j'')
      (Some (NumericLiteralNode ''0''))"
  let ?list = "VariableDeclarationListNode ''let i = 0, j = 0'' [?i, ?j]"
  let ?condition = "Some (BinaryExpressionNode ''i < 10'' ForStatement (IdentifierNode ''i'')
      (TokenNode ''<'' LessThanToken) (NumericLiteralNode ''10''))"
  let ?incrementor = "Some (PostfixUnaryExpressionNode ''i++'' (IdentifierNode ''i'')
      PlusPlusToken)"
  let ?body = "BlockNode ''{ }'' []
      [TokenNode ''{'' (UnlistedKind ''OpenBraceToken''), SyntaxListNode [] [],
       TokenNode ''}'' (UnlistedKind ''CloseBraceToken'')]"
  have k: "kind ?list = VariableDeclarationList"
    and n: "declarations ?list \<noteq> []"
    and l: "last (declarations ?list) =
      VariableDeclarationNode ''j = 0'' (IdentifierNode ''j'') (Some (NumericLiteralNode ''0''))"
    by simp_all
  note step = for_with_declarations [OF k n l, THEN conjunct1,
      of collaborators0 "''for (let i = 0, j = 0; i < 10; i++) { }''"
        ?condition ?incrementor ?body newTranspiler]
  show ?thesis
    unfolding step
    apply (simp add: walk transpileForFromCondition_def transpileLoopBody_def
             convertOperatorToken_def)
    apply (simp add: buffers stripSemicolonNewline_def suffix_def)
    done
qed

subsection \<open>C7: for-of over a variable that is not an array\<close>

text \<open>
  C7 says that an error is reported unless the iterand is an identifier that names a
  variable of array type. The handler only tests that the iterand is an identifier (line
  193) and then reads the capacity of its type as if it were an array (lines 203-204).
  For \<^verbatim>\<open>for (let c of s) c;\<close> with a string variable \<^verbatim>\<open>s\<close> no error is recorded, and
  the bound of the emitted loop is the text \<^verbatim>\<open>undefined\<close>.
\<close>

theorem forOf_over_a_string_variable:
  "getVariableInfo collaborators0 newTranspiler (IdentifierNode ''s'') =
     Some \<lparr>name = ''s'', declaration_pos = 0, type = Primitive ''char *'',
            requiresAllocation = False, isDynamicArray = False\<rparr>
   \<and> recorded (transpileNode collaborators0
        (ForOfStatementNode ''for (let c of s) c;''
           (VariableDeclarationListNode ''let c''
              [VariableDeclarationNode ''c'' (IdentifierNode ''c'') None])
           (IdentifierNode ''s'')
           (ExpressionStatementNode ''c;'' [IdentifierNode ''c'', SemicolonTokenNode '';'']))
        newTranspiler) = Some []
   \<and> emitted EmitTarget_functionBody (transpileNode collaborators0
        (ForOfStatementNode ''for (let c of s) c;''
           (VariableDeclarationListNode ''let c''
              [VariableDeclarationNode ''c'' (IdentifierNode ''c'') None])
           (IdentifierNode ''s'')
           (ExpressionStatementNode ''c;'' [IdentifierNode ''c'', SemicolonTokenNode '';'']))
        newTranspiler) =
       Some (''for (iterator_1 = 0; iterator_1 < undefined; iterator_1++)\<newline>''
             @ ''{\<newline>  c = s[iterator_1];\<newline>  c;\<newline>}\<newline>'')"
proof -
  have one: "numberToString 1 = ''1''"
    by code_simp
  show ?thesis
    apply (simp add: walk)
    apply (simp add: buffers one)
    done
qed

subsection \<open>C1: what transpile returns\<close>

text \<open>
  C1 says that for every compilation unit \<^verbatim>\<open>transpile\<close> returns the joined errors or the
  text of the Emitter, and that errors are never thrown. For a compilation unit with a
  function declaration without statements the walk throws (C9), and so does
  \<^verbatim>\<open>transpile\<close>: it returns neither, whatever the collaborators are.
\<close>

theorem transpile_throws_on_function_without_statements:
  "transpile env
     (SourceFileNode t
        [SyntaxListNode t' [FunctionDeclarationNode t'' nm (Some [])], EndOfFileTokenNode [] []])
     st = Inl TypeError"
  by (simp add: transpile_def Let_def)

theorem transpile_throws_on_function_without_statements_witness:
  "transpile collaborators0
     (SourceFileNode ''function f() {}''
        [SyntaxListNode ''function f() {}''
           [FunctionDeclarationNode ''function f() {}'' (IdentifierNode ''f'') (Some [])],
         EndOfFileTokenNode [] []])
     newTranspiler = Inl TypeError"
  by (rule transpile_throws_on_function_without_statements)

subsection \<open>What holds of C1, C4 and C7 on the code\<close>

text \<open>
  When the walk over the compilation unit does not throw, \<^verbatim>\<open>transpile\<close> returns the errors
  joined with newlines if there is one, and the text of \<^verbatim>\<open>finalize\<close> otherwise; the
  destructors inserted at the end do not touch the errors. \<^verbatim>\<open>addError\<close> appends the
  message to the errors and throws nothing.
\<close>

theorem transpile_returns_errors_or_code:
  assumes "transpileNode env sourceFile
      (insertGCVariablesCreationIfNecessary env None
         (onCollaborators (mm_preprocess env)
            (onCollaborators (th_figureOutVariablesAndTypes env sourceFile) st))) = Inr s4"
  shows "transpile env sourceFile st =
      Inr (if errors s4 \<noteq> [] then join ''\<newline>'' (errors s4)
           else em_finalize env (mm_insertDestructorsIfNecessary env sourceFile (collaborators s4)))
    \<and> errors (addError error s4) = errors s4 @ [error]"
  using assms
  by (simp add: transpile_def Let_def insertDestructorsIfNecessary_def onCollaborators_def
        addError_def)

theorem transpile_returns_errors_or_code_witness:
  "transpile collaborators0
     (SourceFileNode ''for (x in y) {} for (x in y) {}''
        [SyntaxListNode ''for (x in y) {} for (x in y) {}''
           [ForInStatementNode ''for (x in y) {}'', ForInStatementNode ''for (x in y) {}''],
         EndOfFileTokenNode [] []]) newTranspiler =
     Inr (''For-in statement is not yet supported!\<newline>''
          @ ''For-in statement is not yet supported!'')
   \<and> transpile collaborators0
     (SourceFileNode ''x;''
        [SyntaxListNode ''x;''
           [ExpressionStatementNode ''x;'' [IdentifierNode ''x'', SemicolonTokenNode '';'']],
         EndOfFileTokenNode [] []]) newTranspiler = Inr ''\<newline>''"
proof -
  let ?unsupported = "SourceFileNode ''for (x in y) {} for (x in y) {}''
      [SyntaxListNode ''for (x in y) {} for (x in y) {}''
         [ForInStatementNode ''for (x in y) {}'', ForInStatementNode ''for (x in y) {}''],
       EndOfFileTokenNode [] []]"
  let ?supported = "SourceFileNode ''x;''
      [SyntaxListNode ''x;''
         [ExpressionStatementNode ''x;'' [IdentifierNode ''x'', SemicolonTokenNode '';'']],
       EndOfFileTokenNode [] []]"
  let ?start = "\<lambda>sourceFile. insertGCVariablesCreationIfNecessary collaborators0 None
      (onCollaborators (mm_preprocess collaborators0)
         (onCollaborators (th_figureOutVariablesAndTypes collaborators0 sourceFile)
            newTranspiler))"
  have u: "transpileNode collaborators0 ?unsupported (?start ?unsupported) =
      Inr (newTranspiler\<lparr>errors := [''For-in statement is not yet supported!'',
                                      ''For-in statement is not yet supported!'']\<rparr>)"
    by (simp add: walk newTranspiler_def)
  have s: "transpileNode collaborators0 ?supported (?start ?supported) =
      Inr (emit collaborators0 '';\<newline>'' (emit collaborators0 ''x'' newTranspiler))"
    by (simp add: walk newTranspiler_def)
  show ?thesis
    using transpile_returns_errors_or_code [OF u, of undefined, THEN conjunct1]
      transpile_returns_errors_or_code [OF s, of undefined, THEN conjunct1]
    apply (simp add: walk)
    apply (simp add: buffers)
    done
qed

text \<open>
  For every for-of statement whose iterand is not an identifier, the error
  "Unsupported type of expression as array in for of: " with the text of the statement is
  recorded and nothing is emitted.
\<close>

theorem forOf_over_an_expression:
  assumes "kind expression \<noteq> Identifier"
  shows "transpileNode env (ForOfStatementNode t initializer expression statement) st =
    Inr (st\<lparr>errors := errors st
           @ [''Unsupported type of expression as array in for of: '' @ t]\<rparr>)"
  using assms by (simp add: addError_def)

theorem forOf_over_an_expression_witness:
  "kind (CallExpressionNode ''f()'' (IdentifierNode ''f'') []) \<noteq> Identifier
   \<and> recorded (transpileNode collaborators0
        (ForOfStatementNode ''for (let x of f()) x;''
           (VariableDeclarationListNode ''let x''
              [VariableDeclarationNode ''x'' (IdentifierNode ''x'') None])
           (CallExpressionNode ''f()'' (IdentifierNode ''f'') [])
           (ExpressionStatementNode ''x;'' [IdentifierNode ''x'', SemicolonTokenNode '';'']))
        newTranspiler) =
       Some [''Unsupported type of expression as array in for of: for (let x of f()) x;'']"
  using forOf_over_an_expression
    [of "CallExpressionNode ''f()'' (IdentifierNode ''f'') []" collaborators0
      "''for (let x of f()) x;''"
      "VariableDeclarationListNode ''let x''
         [VariableDeclarationNode ''x'' (IdentifierNode ''x'') None]"
      "ExpressionStatementNode ''x;'' [IdentifierNode ''x'', SemicolonTokenNode '';'']"
      newTranspiler]
  by (simp add: recorded_def newTranspiler_def)

text \<open>
  For every for-of statement whose iterand is an identifier that the TypeHelper knows as
  a variable of array type, and whose initializer declares a variable: the counter of
  \<^verbatim>\<open>addNewIteratorVariable\<close> is declared with \<^verbatim>\<open>emitOnceToBeginningOfFunction\<close>, and the
  emitted C is the loop \<^verbatim>\<open>for (i = 0; i < bound; i++)\<close> with braces, in which the declared
  variable is assigned the element before the body; \<^verbatim>\<open>bound\<close> is \<^verbatim>\<open>arr.size\<close> and the
  element \<^verbatim>\<open>arr.data[i]\<close> for a dynamic array, the capacity and \<^verbatim>\<open>arr[i]\<close> otherwise.
\<close>

theorem forOf_over_an_array:
  assumes "kind expression = Identifier"
    and "addNewIteratorVariable env (ForOfStatementNode t initializer expression statement) st
          = (i, s1)"
    and "getVariableInfo env
          (emitOnceToBeginningOfFunction env (''int16_t '' @ i @ '';\<newline>'') s1) expression
          = Some vi"
    and "type vi = ArrayType el c"
    and "declarations initializer = d # ds"
  shows "transpileNode env (ForOfStatementNode t initializer expression statement) st =
    andThen (transpileNode env d
               (increaseIndent env (emit env ''{\<newline>''
                  (emit env (''for ('' @ i @ '' = 0; '' @ i @ '' < ''
                      @ (if isDynamicArray vi then getText expression @ ''.size''
                         else numberToString c)
                      @ ''; '' @ i @ ''++)\<newline>'')
                    (emitOnceToBeginningOfFunction env (''int16_t '' @ i @ '';\<newline>'') s1)))))
      (\<lambda>s6.
    andThen (transpileLoopBody env statement
               (emit env (getText d @ '' = ''
                   @ (if isDynamicArray vi then getText expression @ ''.data''
                      else getText expression)
                   @ ''['' @ i @ ''];\<newline>'') s6))
      (\<lambda>s8. Inr (emit env ''}\<newline>'' (decreaseIndent env s8))))"
  using assms by (simp add: Let_def transpileLoopBody_def)

theorem forOf_over_an_array_witness:
  "kind (IdentifierNode ''a'') = Identifier
   \<and> emitted EmitTarget_functionBody (transpileNode collaborators0
        (ForOfStatementNode ''for (let x of a) x;''
           (VariableDeclarationListNode ''let x''
              [VariableDeclarationNode ''x'' (IdentifierNode ''x'') None])
           (IdentifierNode ''a'')
           (ExpressionStatementNode ''x;'' [IdentifierNode ''x'', SemicolonTokenNode '';'']))
        newTranspiler) =
       Some (''for (iterator_1 = 0; iterator_1 < a.size; iterator_1++)\<newline>''
             @ ''{\<newline>  x = a.data[iterator_1];\<newline>  x;\<newline>}\<newline>'')
   \<and> emitted EmitTarget_functionPrologue (transpileNode collaborators0
        (ForOfStatementNode ''for (let x of a) x;''
           (VariableDeclarationListNode ''let x''
              [VariableDeclarationNode ''x'' (IdentifierNode ''x'') None])
           (IdentifierNode ''a'')
           (ExpressionStatementNode ''x;'' [IdentifierNode ''x'', SemicolonTokenNode '';'']))
        newTranspiler) = Some ''int16_t iterator_1;\<newline>int16_t x;\<newline>''"
proof -
  let ?list = "VariableDeclarationListNode ''let x''
      [VariableDeclarationNode ''x'' (IdentifierNode ''x'') None]"
  let ?body = "ExpressionStatementNode ''x;'' [IdentifierNode ''x'', SemicolonTokenNode '';'']"
  let ?forOf = "ForOfStatementNode ''for (let x of a) x;'' ?list (IdentifierNode ''a'') ?body"
  let ?a = "\<lparr>name = ''a'', declaration_pos = 0, type = ArrayType (Primitive ''int16_t'') 3,
              requiresAllocation = True, isDynamicArray = True\<rparr>"
  let ?s1 = "newTranspiler\<lparr>collaborators := newEmitter\<lparr>iterators := 1\<rparr>\<rparr>"
  have one: "numberToString 1 = ''1''"
    by code_simp
  have k: "kind (IdentifierNode ''a'') = Identifier"
    by simp
  have i: "addNewIteratorVariable collaborators0 ?forOf newTranspiler = (''iterator_1'', ?s1)"
    by (simp add: walk newTranspiler_def newEmitter_def one)
  have a: "getVariableInfo collaborators0
      (emitOnceToBeginningOfFunction collaborators0
         (''int16_t '' @ ''iterator_1'' @ '';\<newline>'') ?s1) (IdentifierNode ''a'') = Some ?a"
    by (simp add: walk)
  have ty: "type ?a = ArrayType (Primitive ''int16_t'') 3"
    by simp
  have d: "declarations ?list = [VariableDeclarationNode ''x'' (IdentifierNode ''x'') None]"
    by simp
  note step = forOf_over_an_array [OF k i a ty d]
  show ?thesis
    unfolding step
    apply (simp add: walk transpileLoopBody_def)
    apply (simp add: buffers)
    done
qed

text \<open>
  For every while and do-while statement, the emitted C surrounds the body with braces,
  also when the source body is a single statement that is not a block: the handler emits
  \<^verbatim>\<open>{\<close> before and \<^verbatim>\<open>}\<close> after the body, and a body that is not a block is transpiled
  as it is between them.
\<close>

theorem braces_around_loop_bodies:
  "transpileNode env (WhileStatementNode t expression statement) st =
     andThen (transpileNode env expression (emit env ''while ('' st)) (\<lambda>s1.
     andThen (transpileLoopBody env statement
                (increaseIndent env (emit env ''{\<newline>'' (emit env '')'' s1)))) (\<lambda>s2.
       Inr (emit env ''}\<newline>'' (decreaseIndent env s2))))
   \<and> transpileNode env (DoStatementNode t statement expression) st =
     andThen (transpileLoopBody env statement
                (increaseIndent env (emit env ''do {\<newline>'' st))) (\<lambda>s1.
     andThen (transpileNode env expression
                (emit env ''} while ('' (decreaseIndent env s1))) (\<lambda>s2.
       Inr (emit env '');\<newline>'' s2)))
   \<and> (kind statement \<noteq> Block
      \<longrightarrow> transpileLoopBody env statement st = transpileNode env statement st)"
  by (simp add: Let_def transpileLoopBody_def)

theorem braces_around_loop_bodies_witness:
  "kind (ExpressionStatementNode ''y;'' [IdentifierNode ''y'', SemicolonTokenNode '';''])
     \<noteq> Block
   \<and> emitted EmitTarget_functionBody (transpileNode collaborators0
        (WhileStatementNode ''while (x) y;'' (IdentifierNode ''x'')
           (ExpressionStatementNode ''y;'' [IdentifierNode ''y'', SemicolonTokenNode '';'']))
        newTranspiler) = Some ''while (x){\<newline>  y;\<newline>}\<newline>''
   \<and> emitted EmitTarget_functionBody (transpileNode collaborators0
        (DoStatementNode ''do y; while (x);''
           (ExpressionStatementNode ''y;'' [IdentifierNode ''y'', SemicolonTokenNode '';''])
           (IdentifierNode ''x''))
        newTranspiler) = Some ''do {\<newline>  y;\<newline>} while (x);\<newline>''"
  using braces_around_loop_bodies
    [of collaborators0 "''while (x) y;''" "IdentifierNode ''x''"
      "ExpressionStatementNode ''y;'' [IdentifierNode ''y'', SemicolonTokenNode '';'']"
      newTranspiler]
    braces_around_loop_bodies
    [of collaborators0 "''do y; while (x);''" "IdentifierNode ''x''"
      "ExpressionStatementNode ''y;'' [IdentifierNode ''y'', SemicolonTokenNode '';'']"
      newTranspiler]
  by (simp add: run transpileLoopBody_def)

end
